theory Spec2Isabelle
  imports Main
begin

section \<open>Python values, exceptions and the records of \<^verbatim>\<open>pylib/middleman.py\<close>\<close>

text \<open>
  Exceptions derived from Python's \<^verbatim>\<open>Exception\<close>. \<open>ImportError\<close> stands for the class and
  its subclasses other than \<open>ModuleNotFoundError\<close>; \<open>KeyError k\<close> is what a dictionary raises
  on a missing key \<open>k\<close>; \<open>AttributeError a\<close> is what an object raises when it has no
  attribute \<open>a\<close>; \<open>OtherException s\<close> is any other subclass of \<^verbatim>\<open>Exception\<close>.
\<close>

datatype exn = ImportError | ModuleNotFoundError | KeyError string | AttributeError string
  | OtherException string

text \<open>A call into a collaborator either returns a value or raises.\<close>

datatype 'a call = Returns 'a | Raises exn

text \<open>The clause \<^verbatim>\<open>except (ImportError, ModuleNotFoundError)\<close>.\<close>

definition is_import_error :: "exn \<Rightarrow> bool" where
  "is_import_error e = (e = ImportError \<or> e = ModuleNotFoundError)"

text \<open>Python's \<^verbatim>\<open>None\<close> or a string, the value of an option parameter's \<^verbatim>\<open>"data"\<close>.\<close>

datatype data = NoData | Data string

text \<open>
  The dictionaries of a device. A key that the code reads unguarded is a field; a key that
  the code guards (the membership test on \<^verbatim>\<open>"active"\<close>, the \<^verbatim>\<open>except KeyError\<close> around
  \<^verbatim>\<open>"parameters"\<close> and around the keys of a parameter) is a field of type \<open>option\<close>, \<open>None\<close>
  when the key is absent. A parameter is a dictionary over the keys \<^verbatim>\<open>"active"\<close>, \<^verbatim>\<open>"data"\<close>
  and \<^verbatim>\<open>"colours"\<close>.
\<close>

record param =
  p_active :: "bool option"
  p_data :: "data option"
  p_colours :: "string list option"

record opt =
  o_id :: string
  o_type :: string
  o_colours :: "string list"
  o_active :: "bool option"
  o_parameters :: "param list option"

text \<open>\<^verbatim>\<open>device["zone_options"]\<close> is a dictionary in insertion order: an association list.\<close>

record device =
  dev_name :: string
  dev_backend :: string
  dev_uid :: string
  dev_serial :: string
  zone_options :: "(string \<times> opt list) list"

text \<open>
  What a backend method hands back: a value of type \<^verbatim>\<open>list\<close>, a \<^verbatim>\<open>Backend.DeviceItem\<close>,
  \<^verbatim>\<open>None\<close>, or a string (an error message).
\<close>

datatype pyval = PList "device list" | PItem device | PNone | PStr string

text \<open>
  A backend object. \<^verbatim>\<open>backends/_backend.py\<close> is an external collaborator, so the behaviour
  of its methods is data of the object: \<open>init_reply\<close> is what \<^verbatim>\<open>init()\<close> does (the truthiness
  of its result, or the exception), \<open>get_devices_reply n\<close> is what the call number \<open>n\<close> of
  \<^verbatim>\<open>get_devices()\<close> does (devices come and go between calls), and the two lookups answer by
  key.
\<close>

record backend =
  backend_id :: string
  version :: string
  init_reply :: "bool call"
  get_devices_calls :: nat
  get_devices_reply :: "nat \<Rightarrow> pyval call"
  get_device_by_name_reply :: "string \<Rightarrow> pyval call"
  get_device_by_serial_reply :: "string \<Rightarrow> pyval call"

type_synonym troubleshooter = string

text \<open>The fields that \<^verbatim>\<open>Middleman.__init__\<close> sets up.\<close>

record middleman =
  backends :: "backend list"
  bad_init :: "backend list"
  not_installed :: "string list"
  troubleshooters :: "string \<rightharpoonup> troubleshooter"
  import_errors :: "string \<rightharpoonup> string"
  device_cache :: "device list"

definition Middleman :: middleman where
  "Middleman = \<lparr>backends = [], bad_init = [], not_installed = [], troubleshooters = Map.empty,
     import_errors = Map.empty, device_cache = []\<rparr>"

text \<open>
  The module globals that \<^verbatim>\<open>init\<close> reads (the tests replace them), and
  \<^verbatim>\<open>common.get_exception_as_string\<close>. A constructor is called with fixed arguments, so an
  entry of \<open>BACKEND_MODULES\<close> is the outcome of that call.
\<close>

record registry =
  BACKEND_NAMES :: "(string \<times> string) list"
  BACKEND_MODULES :: "string \<rightharpoonup> backend call"
  TROUBLESHOOT_MODULES :: "string \<rightharpoonup> troubleshooter"
  get_exception_as_string :: "exn \<Rightarrow> string"

section \<open>\<^verbatim>\<open>Middleman.init\<close>\<close>

text \<open>The two \<^verbatim>\<open>except\<close> clauses of the first \<^verbatim>\<open>try\<close> of \<^verbatim>\<open>_load_backend_module\<close>.\<close>

definition load_except :: "registry \<Rightarrow> middleman \<Rightarrow> string \<Rightarrow> exn \<Rightarrow> middleman" where
  "load_except reg m bid e =
     (if is_import_error e then m\<lparr>not_installed := not_installed m @ [bid]\<rparr>
      else m\<lparr>import_errors := (import_errors m)(bid \<mapsto> get_exception_as_string reg e)\<rparr>)"

text \<open>
  \<^verbatim>\<open>_load_backend_module\<close>: the state it leaves and the exception that escapes it, if any.
  The second \<^verbatim>\<open>try\<close> catches \<^verbatim>\<open>NameError\<close> only, so the \<^verbatim>\<open>KeyError\<close> of a missing
  troubleshooter escapes.
\<close>

definition load_backend_module :: "registry \<Rightarrow> middleman \<Rightarrow> string \<Rightarrow> exn option \<times> middleman" where
  "load_backend_module reg m bid =
     (let m1 =
        (case BACKEND_MODULES reg bid of
           None \<Rightarrow> load_except reg m bid (KeyError bid)
         | Some (Raises e) \<Rightarrow> load_except reg m bid e
         | Some (Returns b) \<Rightarrow>
             (case init_reply b of
                Raises e \<Rightarrow> load_except reg m bid e
              | Returns ok \<Rightarrow>
                  if ok then m\<lparr>backends := backends m @ [b]\<rparr>
                  else m\<lparr>bad_init := bad_init m @ [b]\<rparr>))
      in case TROUBLESHOOT_MODULES reg bid of
           None \<Rightarrow> (Some (KeyError bid), m1)
         | Some t \<Rightarrow> (None, m1\<lparr>troubleshooters := (troubleshooters m1)(bid \<mapsto> t)\<rparr>))"

text \<open>The loop \<^verbatim>\<open>for backend_id in BACKEND_NAMES.keys()\<close>; an escaping exception ends it.\<close>

fun init_loop :: "registry \<Rightarrow> string list \<Rightarrow> middleman \<Rightarrow> exn option \<times> middleman" where
  "init_loop reg [] m = (None, m)"
| "init_loop reg (bid # rest) m =
     (case load_backend_module reg m bid of
        (Some e, m') \<Rightarrow> (Some e, m')
      | (None, m') \<Rightarrow> init_loop reg rest m')"

definition init :: "registry \<Rightarrow> middleman \<Rightarrow> exn option \<times> middleman" where
  "init reg m = init_loop reg (map fst (BACKEND_NAMES reg)) m"

text \<open>
  The outcome of one load attempt, as section 9 of the specification names it: a tagged
  result that depends on the registry entry of that id alone.
\<close>

datatype outcome = Running backend | NotInstalled | BadInit backend | InitError string

definition exn_outcome :: "registry \<Rightarrow> exn \<Rightarrow> outcome" where
  "exn_outcome reg e = (if is_import_error e then NotInstalled else InitError (get_exception_as_string reg e))"

definition load_outcome :: "registry \<Rightarrow> string \<Rightarrow> outcome" where
  "load_outcome reg bid =
     (case BACKEND_MODULES reg bid of
        None \<Rightarrow> exn_outcome reg (KeyError bid)
      | Some (Raises e) \<Rightarrow> exn_outcome reg e
      | Some (Returns b) \<Rightarrow>
          (case init_reply b of
             Raises e \<Rightarrow> exn_outcome reg e
           | Returns ok \<Rightarrow> if ok then Running b else BadInit b))"

definition running_of :: "outcome \<Rightarrow> backend list" where
  "running_of oc = (case oc of Running b \<Rightarrow> [b] | _ \<Rightarrow> [])"

definition bad_init_of :: "outcome \<Rightarrow> backend list" where
  "bad_init_of oc = (case oc of BadInit b \<Rightarrow> [b] | _ \<Rightarrow> [])"

definition import_error_of :: "outcome \<Rightarrow> string option" where
  "import_error_of oc = (case oc of InitError s \<Rightarrow> Some s | _ \<Rightarrow> None)"

section \<open>The device cache\<close>

text \<open>One call \<^verbatim>\<open>module.get_devices()\<close>: the reply, and the backend after the call.\<close>

definition get_devices_call :: "backend \<Rightarrow> pyval call \<times> backend" where
  "get_devices_call b =
     (get_devices_reply b (get_devices_calls b), b\<lparr>get_devices_calls := Suc (get_devices_calls b)\<rparr>)"

text \<open>
  The loop of \<^verbatim>\<open>_reload_device_cache_if_empty\<close> over \<^verbatim>\<open>self.backends\<close>, with the cache built
  so far. \<^verbatim>\<open>type(device_list) == list\<close> holds of \<open>PList\<close> alone. An exception of a backend
  escapes and leaves the cache as far as it was built.
\<close>

fun reload_loop :: "backend list \<Rightarrow> device list \<Rightarrow> exn option \<times> backend list \<times> device list" where
  "reload_loop [] cache = (None, [], cache)"
| "reload_loop (b # bs) cache =
     (case get_devices_call b of
        (Raises e, b') \<Rightarrow> (Some e, b' # bs, cache)
      | (Returns device_list, b') \<Rightarrow>
          (case reload_loop bs (case device_list of PList ds \<Rightarrow> cache @ ds | _ \<Rightarrow> cache) of
             (r, bs', cache') \<Rightarrow> (r, b' # bs', cache')))"

definition reload_device_cache_if_empty :: "middleman \<Rightarrow> exn option \<times> middleman" where
  "reload_device_cache_if_empty m =
     (if device_cache m \<noteq> [] then (None, m)
      else (case reload_loop (backends m) (device_cache m) of
              (r, bs, cache) \<Rightarrow> (r, m\<lparr>backends := bs, device_cache := cache\<rparr>)))"

definition reload_device_cache :: "middleman \<Rightarrow> exn option \<times> middleman" where
  "reload_device_cache m = reload_device_cache_if_empty (m\<lparr>device_cache := []\<rparr>)"

definition get_devices :: "middleman \<Rightarrow> device list call \<times> middleman" where
  "get_devices m =
     (case reload_device_cache_if_empty m of
        (Some e, m') \<Rightarrow> (Raises e, m')
      | (None, m') \<Rightarrow> (Returns (device_cache m'), m'))"

text \<open>
  What the next call of \<^verbatim>\<open>get_devices()\<close> on a backend does, whether it returns, and what
  it adds to the cache: its value when that is a list, nothing otherwise.
\<close>

definition next_reply :: "backend \<Rightarrow> pyval call" where
  "next_reply b = get_devices_reply b (get_devices_calls b)"

definition returns :: "'a call \<Rightarrow> bool" where
  "returns c = (case c of Returns v \<Rightarrow> True | Raises e \<Rightarrow> False)"

definition contribution :: "backend \<Rightarrow> device list" where
  "contribution b = (case next_reply b of Returns (PList ds) \<Rightarrow> ds | _ \<Rightarrow> [])"

definition queried :: "backend \<Rightarrow> backend" where
  "queried b = snd (get_devices_call b)"

section \<open>Lookups\<close>

text \<open>\<^verbatim>\<open>isinstance(device, Backend.DeviceItem)\<close> holds of \<open>PItem\<close> alone.\<close>

fun get_device_by_name_loop :: "backend list \<Rightarrow> string \<Rightarrow> device option call" where
  "get_device_by_name_loop [] name = Returns None"
| "get_device_by_name_loop (b # bs) name =
     (case get_device_by_name_reply b name of
        Raises e \<Rightarrow> Raises e
      | Returns (PItem d) \<Rightarrow> Returns (Some d)
      | Returns _ \<Rightarrow> get_device_by_name_loop bs name)"

definition get_device_by_name :: "middleman \<Rightarrow> string \<Rightarrow> device option call" where
  "get_device_by_name m name = get_device_by_name_loop (backends m) name"

fun get_device_by_serial_loop :: "backend list \<Rightarrow> string \<Rightarrow> device option call" where
  "get_device_by_serial_loop [] serial = Returns None"
| "get_device_by_serial_loop (b # bs) serial =
     (case get_device_by_serial_reply b serial of
        Raises e \<Rightarrow> Raises e
      | Returns (PItem d) \<Rightarrow> Returns (Some d)
      | Returns _ \<Rightarrow> get_device_by_serial_loop bs serial)"

definition get_device_by_serial :: "middleman \<Rightarrow> string \<Rightarrow> device option call" where
  "get_device_by_serial m serial = get_device_by_serial_loop (backends m) serial"

text \<open>A reply that is a value, but no \<^verbatim>\<open>DeviceItem\<close>: the loop goes on to the next backend.\<close>

definition no_match :: "pyval call \<Rightarrow> bool" where
  "no_match c = (case c of Returns (PItem d) \<Rightarrow> False | Returns _ \<Rightarrow> True | Raises e \<Rightarrow> False)"

section \<open>\<^verbatim>\<open>Middleman._get_current_device_option\<close>\<close>

text \<open>The local variables that the loops assign.\<close>

record scan =
  found_option :: "opt option"
  option_id :: "string option"
  option_data :: data
  colour_hex :: "string list"
  param_var :: "param option"

definition scan_start :: scan where
  "scan_start = \<lparr>found_option = None, option_id = None, option_data = NoData, colour_hex = [],
     param_var = None\<rparr>"

text \<open>
  \<^verbatim>\<open>for param in option["parameters"]\<close>. A key that a parameter lacks raises \<^verbatim>\<open>KeyError\<close>,
  which the enclosing \<^verbatim>\<open>except KeyError: pass\<close> catches: the loop is left with the
  assignments made so far.
\<close>

fun for_param :: "param list \<Rightarrow> scan \<Rightarrow> scan" where
  "for_param [] s = s"
| "for_param (p # ps) s =
     (let s1 = s\<lparr>param_var := Some p\<rparr> in
      case p_active p of
        None \<Rightarrow> s1
      | Some a \<Rightarrow>
          if a then
            (case p_data p of
               None \<Rightarrow> s1
             | Some d \<Rightarrow>
                 (case p_colours p of
                    None \<Rightarrow> s1\<lparr>option_data := d\<rparr>
                  | Some cs \<Rightarrow> for_param ps (s1\<lparr>option_data := d, colour_hex := cs\<rparr>)))
          else for_param ps s1)"

text \<open>
  \<^verbatim>\<open>for option in device["zone_options"][zone]\<close>. The \<^verbatim>\<open>break\<close> under
  \<^verbatim>\<open>len(option["parameters"]) == 0\<close> leaves this loop.
\<close>

fun for_option :: "opt list \<Rightarrow> scan \<Rightarrow> scan" where
  "for_option [] s = s"
| "for_option (x # xs) s =
     (case o_active x of
        None \<Rightarrow> for_option xs s
      | Some a \<Rightarrow>
          if o_type x \<noteq> ''effect'' then for_option xs s
          else if a then
            (let s1 = s\<lparr>found_option := Some x, option_id := Some (o_id x)\<rparr> in
             case o_parameters x of
               None \<Rightarrow> for_option xs s1
             | Some ps \<Rightarrow> if length ps = 0 then s1 else for_option xs (for_param ps s1))
          else for_option xs s)"

text \<open>\<^verbatim>\<open>for zone in zones\<close>; a zone that the device lacks raises \<^verbatim>\<open>KeyError\<close>.\<close>

fun for_zone :: "device \<Rightarrow> string list \<Rightarrow> scan \<Rightarrow> exn + scan" where
  "for_zone device [] s = Inr s"
| "for_zone device (zone # zones) s =
     (case map_of (zone_options device) zone of
        None \<Rightarrow> Inl (KeyError zone)
      | Some options \<Rightarrow> for_zone device zones (for_option options s))"

text \<open>\<^verbatim>\<open>if zone:\<close> holds of a string that is not empty.\<close>

definition zones_of :: "device \<Rightarrow> string option \<Rightarrow> string list" where
  "zones_of device zone =
     (case zone of
        None \<Rightarrow> map fst (zone_options device)
      | Some z \<Rightarrow> if z \<noteq> [] then [z] else map fst (zone_options device))"

text \<open>\<^verbatim>\<open>not param\<close>: \<^verbatim>\<open>None\<close> and the empty dictionary are falsy.\<close>

definition not_param :: "param option \<Rightarrow> bool" where
  "not_param pv =
     (case pv of
        None \<Rightarrow> True
      | Some p \<Rightarrow> p_active p = None \<and> p_data p = None \<and> p_colours p = None)"

text \<open>
  The result list \<^verbatim>\<open>[option_id, option_data, colour_hex]\<close>; \<open>None\<close> in the first and the
  third place is Python's \<^verbatim>\<open>None\<close>.
\<close>

definition get_current_device_option ::
    "device \<Rightarrow> string option \<Rightarrow> (string option \<times> data \<times> string list option) call" where
  "get_current_device_option device zone =
     (case for_zone device (zones_of device zone) scan_start of
        Inl e \<Rightarrow> Raises e
      | Inr s \<Rightarrow>
          (case found_option s of
             None \<Rightarrow> Returns (None, NoData, None)
           | Some found \<Rightarrow>
               Returns (option_id s, option_data s,
                 Some (if not_param (param_var s) then o_colours found else colour_hex s))))"

text \<open>An active option of type \<^verbatim>\<open>"effect"\<close>.\<close>

definition active_effect :: "opt \<Rightarrow> bool" where
  "active_effect x = (o_active x = Some True \<and> o_type x = ''effect'')"

text \<open>The option lists of the zones in scope, in the order of the iteration.\<close>

definition scope :: "device \<Rightarrow> string option \<Rightarrow> opt list list" where
  "scope device zone =
     concat (map (\<lambda>z. case map_of (zone_options device) z of None \<Rightarrow> [] | Some xs \<Rightarrow> [xs])
       (zones_of device zone))"

definition zone_known :: "device \<Rightarrow> string option \<Rightarrow> bool" where
  "zone_known device zone = list_all (\<lambda>z. map_of (zone_options device) z \<noteq> None) (zones_of device zone)"

text \<open>
  The part of a zone's option list that the loop reads: up to and including the first active
  effect option whose parameter list is empty.
\<close>

fun visited :: "opt list \<Rightarrow> opt list" where
  "visited [] = []"
| "visited (x # xs) =
     (if active_effect x \<and> o_parameters x = Some [] then [x] else x # visited xs)"

definition last_option :: "'a list \<Rightarrow> 'a option" where
  "last_option xs = (if xs = [] then None else Some (last xs))"

text \<open>
  The \<^verbatim>\<open>break\<close> hides a candidate: the first active effect option with an empty parameter
  list is followed, in its zone, by another active effect option.
\<close>

fun cut_short :: "opt list \<Rightarrow> bool" where
  "cut_short [] = False"
| "cut_short (x # xs) =
     (if active_effect x \<and> o_parameters x = Some [] then filter active_effect xs \<noteq> []
      else cut_short xs)"

text \<open>
  A parameter that is switched on, and a parameter that carries all three keys.
\<close>

definition param_on :: "param \<Rightarrow> bool" where
  "param_on p = (p_active p = Some True)"

definition param_complete :: "param \<Rightarrow> bool" where
  "param_complete p = (p_active p \<noteq> None \<and> p_data p \<noteq> None \<and> p_colours p \<noteq> None)"

section \<open>\<^verbatim>\<open>Middleman.set_bulk_option\<close>\<close>

text \<open>\<^verbatim>\<open>while len(colour_hex) < colours_needed: colour_hex.append("#00FF00")\<close>\<close>

function pad_colours :: "int \<Rightarrow> string list \<Rightarrow> string list" where
  "pad_colours colours_needed cs =
     (if int (length cs) < colours_needed then pad_colours colours_needed (cs @ [''#00FF00''])
      else cs)"
  by pat_completeness auto
termination
  by (relation "measure (\<lambda>(n, cs). nat (n - int (length cs)))") auto

declare pad_colours.simps [simp del]

text \<open>
  The inner \<^verbatim>\<open>for option in device["zone_options"][zone]\<close> with its \<^verbatim>\<open>break\<close>: the first
  option of the given id, \<open>None\<close> when \<^verbatim>\<open>skip\<close> stays true.
\<close>

fun matching_option :: "string \<Rightarrow> opt list \<Rightarrow> opt option" where
  "matching_option oid [] = None"
| "matching_option oid (x # xs) = (if o_id x = oid then Some x else matching_option oid xs)"

text \<open>
  \<^verbatim>\<open>colour_hex\<close> is the list object of that option, so the padding is written into the
  device: the option list after the \<^verbatim>\<open>while\<close> loop.
\<close>

fun padded_in_place :: "string \<Rightarrow> int \<Rightarrow> opt list \<Rightarrow> opt list" where
  "padded_in_place oid n [] = []"
| "padded_in_place oid n (x # xs) =
     (if o_id x = oid then x\<lparr>o_colours := pad_colours n (o_colours x)\<rparr> # xs
      else x # padded_in_place oid n xs)"

text \<open>The arguments of one call of \<^verbatim>\<open>self.set_device_state\<close>.\<close>

record state_call =
  sc_backend :: string
  sc_uid :: string
  sc_serial :: string
  sc_zone :: string
  sc_option_id :: string
  sc_option_data :: data
  sc_colour_hex :: "string list"

text \<open>
  Attribute lookup. \<^verbatim>\<open>set_bulk_option\<close> calls \<^verbatim>\<open>self.get_device_all()\<close> and
  \<^verbatim>\<open>self.set_device_state(...)\<close>; each name is looked up on the object when the call is
  reached, and a name that is not bound raises \<^verbatim>\<open>AttributeError\<close>. The record says what is
  bound under the two names, \<open>None\<close> for a name that is not bound. \<^verbatim>\<open>class Middleman(object)\<close>
  defines \<^verbatim>\<open>__init__\<close>, \<^verbatim>\<open>init\<close>, \<^verbatim>\<open>get_backend\<close>, \<^verbatim>\<open>is_backend_running\<close>,
  \<^verbatim>\<open>get_versions\<close>, \<^verbatim>\<open>_reload_device_cache_if_empty\<close>, \<^verbatim>\<open>reload_device_cache\<close>,
  \<^verbatim>\<open>get_devices\<close>, \<^verbatim>\<open>get_device_by_name\<close>, \<^verbatim>\<open>get_device_by_serial\<close>,
  \<^verbatim>\<open>get_device_by_form_factor\<close>, \<^verbatim>\<open>get_unsupported_devices\<close>, \<^verbatim>\<open>troubleshoot\<close>,
  \<^verbatim>\<open>restart\<close>, \<^verbatim>\<open>_get_current_device_option\<close>, \<^verbatim>\<open>replay_active_effect\<close>,
  \<^verbatim>\<open>set_device_colour\<close>, \<^verbatim>\<open>set_bulk_option\<close> and \<^verbatim>\<open>set_bulk_colour\<close>, and
  \<^verbatim>\<open>__init__\<close> binds the fields of the record \<open>middleman\<close> and \<^verbatim>\<open>_dbg\<close>, \<^verbatim>\<open>_common\<close>,
  \<^verbatim>\<open>_\<close>: neither of the two names is bound, which is \<open>Middleman_class\<close>.
\<close>

record bindings =
  get_device_all :: "(middleman \<Rightarrow> device list) option"
  set_device_state :: "(state_call \<Rightarrow> bool) option"

definition Middleman_class :: bindings where
  "Middleman_class = \<lparr>get_device_all = None, set_device_state = None\<rparr>"

text \<open>
  \<^verbatim>\<open>for zone in device["zone_options"].keys()\<close>, over the items of the dictionary: the
  exception that ends the loop, if any, the calls of \<^verbatim>\<open>set_device_state\<close> made, and the
  items after the loop. The padding comes before the call, so it is done when the lookup of
  \<^verbatim>\<open>set_device_state\<close> fails. The result of a call goes to the log only.
\<close>

fun bulk_zones :: "bindings \<Rightarrow> device \<Rightarrow> string \<Rightarrow> data \<Rightarrow> int \<Rightarrow> (string \<times> opt list) list \<Rightarrow>
    exn option \<times> state_call list \<times> (string \<times> opt list) list" where
  "bulk_zones cls device oid odata n [] = (None, [], [])"
| "bulk_zones cls device oid odata n ((zone, options) # rest) =
     (case matching_option oid options of
        None \<Rightarrow>
          (case bulk_zones cls device oid odata n rest of
             (r, calls, rest') \<Rightarrow> (r, calls, (zone, options) # rest'))
      | Some x \<Rightarrow>
          (case set_device_state cls of
             None \<Rightarrow>
               (Some (AttributeError ''set_device_state''), [],
                (zone, padded_in_place oid n options) # rest)
           | Some apply_state \<Rightarrow>
               (case bulk_zones cls device oid odata n rest of
                  (r, calls, rest') \<Rightarrow>
                    (r,
                     \<lparr>sc_backend = dev_backend device, sc_uid = dev_uid device,
                       sc_serial = dev_serial device, sc_zone = zone, sc_option_id = oid,
                       sc_option_data = odata,
                       sc_colour_hex = pad_colours n (o_colours x)\<rparr> # calls,
                     (zone, padded_in_place oid n options) # rest'))))"

text \<open>\<^verbatim>\<open>for device in devices\<close>; an exception ends it.\<close>

fun bulk_devices :: "bindings \<Rightarrow> device list \<Rightarrow> string \<Rightarrow> data \<Rightarrow> int \<Rightarrow>
    exn option \<times> state_call list \<times> device list" where
  "bulk_devices cls [] oid odata n = (None, [], [])"
| "bulk_devices cls (device # devices) oid odata n =
     (case bulk_zones cls device oid odata n (zone_options device) of
        (Some e, calls, zs) \<Rightarrow> (Some e, calls, device\<lparr>zone_options := zs\<rparr> # devices)
      | (None, calls, zs) \<Rightarrow>
          (case bulk_devices cls devices oid odata n of
             (r, calls', devices') \<Rightarrow> (r, calls @ calls', device\<lparr>zone_options := zs\<rparr> # devices')))"

text \<open>
  \<^verbatim>\<open>set_bulk_option\<close> on the object \<open>self\<close>: the exception it raises, if any, and the calls
  of \<^verbatim>\<open>set_device_state\<close> it has made. The first statement writes to the log; the second
  looks \<^verbatim>\<open>get_device_all\<close> up.
\<close>

definition set_bulk_option ::
    "bindings \<Rightarrow> middleman \<Rightarrow> string \<Rightarrow> data \<Rightarrow> int \<Rightarrow> exn option \<times> state_call list" where
  "set_bulk_option cls self oid odata n =
     (case get_device_all cls of
        None \<Rightarrow> (Some (AttributeError ''get_device_all''), [])
      | Some all_devices \<Rightarrow>
          (case bulk_devices cls (all_devices self) oid odata n of
             (r, calls, devices') \<Rightarrow> (r, calls)))"

text \<open>
  The calls for one zone as the specification words them: a zone without an option of the
  given id gets no call; a zone with one gets one call, whose colours are those of the first
  such option followed by as many placeholders as are missing.
\<close>

definition apply_call :: "device \<Rightarrow> string \<Rightarrow> string \<Rightarrow> data \<Rightarrow> string list \<Rightarrow> state_call" where
  "apply_call device zone oid odata colours =
     \<lparr>sc_backend = dev_backend device, sc_uid = dev_uid device, sc_serial = dev_serial device,
      sc_zone = zone, sc_option_id = oid, sc_option_data = odata, sc_colour_hex = colours\<rparr>"

definition zone_calls :: "device \<Rightarrow> string \<Rightarrow> data \<Rightarrow> int \<Rightarrow> string \<times> opt list \<Rightarrow> state_call list" where
  "zone_calls device oid odata n entry =
     (case find (\<lambda>x. o_id x = oid) (snd entry) of
        None \<Rightarrow> []
      | Some x \<Rightarrow>
          [apply_call device (fst entry) oid odata
             (o_colours x @ replicate (nat (n - int (length (o_colours x)))) ''#00FF00'')])"

section \<open>Example data\<close>

definition exception_text :: "exn \<Rightarrow> string" where
  "exception_text e =
     (case e of ImportError \<Rightarrow> ''ImportError'' | ModuleNotFoundError \<Rightarrow> ''ModuleNotFoundError''
      | KeyError k \<Rightarrow> ''KeyError: '' @ k | AttributeError a \<Rightarrow> ''AttributeError: '' @ a
      | OtherException s \<Rightarrow> s)"

definition dummy_backend :: "string \<Rightarrow> bool call \<Rightarrow> backend" where
  "dummy_backend i r =
     \<lparr>backend_id = i, version = ''9.9.9'', init_reply = r, get_devices_calls = 0,
      get_devices_reply = (\<lambda>n. Returns (PList [])),
      get_device_by_name_reply = (\<lambda>s. Returns PNone),
      get_device_by_serial_reply = (\<lambda>s. Returns PNone)\<rparr>"

definition four_registry :: registry where
  "four_registry =
     \<lparr>BACKEND_NAMES = [(''alpha'', ''Alpha''), (''beta'', ''Beta''), (''gamma'', ''Gamma''),
        (''delta'', ''Delta'')],
      BACKEND_MODULES =
        [''alpha'' \<mapsto> Raises ModuleNotFoundError,
         ''beta'' \<mapsto> Raises (OtherException ''boom''),
         ''gamma'' \<mapsto> Returns (dummy_backend ''gamma'' (Returns False)),
         ''delta'' \<mapsto> Returns (dummy_backend ''delta'' (Returns True))],
      TROUBLESHOOT_MODULES =
        [''alpha'' \<mapsto> ''troubleshoot_alpha'', ''beta'' \<mapsto> ''troubleshoot_beta'',
         ''gamma'' \<mapsto> ''troubleshoot_gamma'', ''delta'' \<mapsto> ''troubleshoot_delta''],
      get_exception_as_string = exception_text\<rparr>"

definition gap_registry :: registry where
  "gap_registry = four_registry\<lparr>TROUBLESHOOT_MODULES :=
     [''alpha'' \<mapsto> ''troubleshoot_alpha'', ''gamma'' \<mapsto> ''troubleshoot_gamma'',
      ''delta'' \<mapsto> ''troubleshoot_delta'']\<rparr>"

definition brightness_option :: opt where
  "brightness_option = \<lparr>o_id = ''brightness'', o_type = ''slider'', o_colours = [],
     o_active = None, o_parameters = None\<rparr>"

definition static_option :: opt where
  "static_option = \<lparr>o_id = ''static'', o_type = ''effect'', o_colours = [''#FF0000''],
     o_active = Some True, o_parameters = Some []\<rparr>"

definition spectrum_option :: opt where
  "spectrum_option = \<lparr>o_id = ''spectrum'', o_type = ''effect'', o_colours = [],
     o_active = Some True, o_parameters = None\<rparr>"

definition wave_left :: param where
  "wave_left = \<lparr>p_active = Some False, p_data = Some (Data ''left''), p_colours = Some []\<rparr>"

definition wave_right :: param where
  "wave_right = \<lparr>p_active = Some True, p_data = Some (Data ''right''),
     p_colours = Some [''#00FFFF'']\<rparr>"

definition wave_option :: opt where
  "wave_option = \<lparr>o_id = ''wave'', o_type = ''effect'', o_colours = [''#0000FF''],
     o_active = Some True, o_parameters = Some [wave_left, wave_right]\<rparr>"

definition breath_option :: opt where
  "breath_option = \<lparr>o_id = ''breath'', o_type = ''effect'', o_colours = [''#00FF00''],
     o_active = Some False, o_parameters = Some [wave_left]\<rparr>"

definition idle_static :: opt where
  "idle_static = \<lparr>o_id = ''static'', o_type = ''effect'', o_colours = [],
     o_active = Some False, o_parameters = Some []\<rparr>"

definition keyboard :: device where
  "keyboard = \<lparr>dev_name = ''Dummy Keyboard'', dev_backend = ''dummy'', dev_uid = ''0'',
     dev_serial = ''DUMMY0001'',
     zone_options = [(''main'', [brightness_option, wave_option, spectrum_option]),
                     (''logo'', [static_option, breath_option])]\<rparr>"

definition mouse :: device where
  "mouse = \<lparr>dev_name = ''Dummy Mouse'', dev_backend = ''dummy'', dev_uid = ''1'',
     dev_serial = ''DUMMY0002'',
     zone_options = [(''main'', [brightness_option, breath_option, idle_static]),
                     (''scroll'', [brightness_option, wave_option])]\<rparr>"

definition headset :: device where
  "headset = \<lparr>dev_name = ''Dummy Headset'', dev_backend = ''dummy'', dev_uid = ''2'',
     dev_serial = ''DUMMY0003'',
     zone_options = [(''main'', [static_option, spectrum_option])]\<rparr>"

definition razer_backend :: backend where
  "razer_backend = (dummy_backend ''razer'' (Returns True))
     \<lparr>get_devices_reply :=
        (\<lambda>n. if n = 0 then Returns (PList [keyboard]) else Returns (PList [keyboard, mouse])),
      get_device_by_name_reply :=
        (\<lambda>s. if s = ''Dummy Keyboard'' then Returns (PItem keyboard) else Returns PNone),
      get_device_by_serial_reply :=
        (\<lambda>s. if s = ''DUMMY0001'' then Returns (PItem keyboard) else Returns PNone)\<rparr>"

definition broken_backend :: backend where
  "broken_backend = (dummy_backend ''broken'' (Returns True))
     \<lparr>get_devices_reply := (\<lambda>n. Returns (PStr ''Traceback'')),
      get_device_by_name_reply := (\<lambda>s. Returns (PStr ''Traceback'')),
      get_device_by_serial_reply := (\<lambda>s. Returns (PStr ''Traceback''))\<rparr>"

definition silent_backend :: backend where
  "silent_backend = (dummy_backend ''silent'' (Returns True))
     \<lparr>get_devices_reply := (\<lambda>n. Returns PNone)\<rparr>"

definition late_backend :: backend where
  "late_backend = (dummy_backend ''late'' (Returns True))
     \<lparr>get_devices_reply :=
        (\<lambda>n. if n = 0 then Returns (PList []) else Returns (PList [mouse]))\<rparr>"

definition three_backends :: middleman where
  "three_backends = Middleman\<lparr>backends := [broken_backend, silent_backend, razer_backend]\<rparr>"

definition late_only :: middleman where
  "late_only = Middleman\<lparr>backends := [late_backend]\<rparr>"

definition crashing_backend :: backend where
  "crashing_backend = (dummy_backend ''crashing'' (Returns True))
     \<lparr>get_device_by_name_reply := (\<lambda>s. Raises (OtherException ''DBusException'')),
      get_device_by_serial_reply := (\<lambda>s. Raises (OtherException ''DBusException''))\<rparr>"

definition crashing_first :: middleman where
  "crashing_first = Middleman\<lparr>backends := [crashing_backend, razer_backend]\<rparr>"

text \<open>
  A middleman with two devices in its cache, and for comparison a class that binds both
  names: \<^verbatim>\<open>get_device_all\<close> to the cache, \<^verbatim>\<open>set_device_state\<close> to an operation that
  succeeds.
\<close>

definition two_cached :: middleman where
  "two_cached = three_backends\<lparr>device_cache := [keyboard, mouse]\<rparr>"

definition bound_class :: bindings where
  "bound_class = \<lparr>get_device_all = Some device_cache, set_device_state = Some (\<lambda>c. True)\<rparr>"

section \<open>Properties of \<^verbatim>\<open>init\<close>\<close>

lemma load_backend_module_state:
  "snd (load_backend_module reg m bid) =
     (let oc = load_outcome reg bid in
      m\<lparr>backends := backends m @ running_of oc,
        bad_init := bad_init m @ bad_init_of oc,
        not_installed := not_installed m @ (if oc = NotInstalled then [bid] else []),
        import_errors := (case import_error_of oc of None \<Rightarrow> import_errors m
                          | Some s \<Rightarrow> (import_errors m)(bid \<mapsto> s)),
        troubleshooters := (case TROUBLESHOOT_MODULES reg bid of None \<Rightarrow> troubleshooters m
                          | Some t \<Rightarrow> (troubleshooters m)(bid \<mapsto> t))\<rparr>)"
  by (simp add: load_backend_module_def load_outcome_def load_except_def exn_outcome_def
      running_of_def bad_init_of_def import_error_of_def Let_def
      split: option.splits call.splits)

lemma load_backend_module_raises:
  "fst (load_backend_module reg m bid) =
     (case TROUBLESHOOT_MODULES reg bid of None \<Rightarrow> Some (KeyError bid) | Some t \<Rightarrow> None)"
  by (simp add: load_backend_module_def Let_def split: option.splits)

lemma init_loop_Cons_ok:
  "TROUBLESHOOT_MODULES reg k = Some t \<Longrightarrow>
   init_loop reg (k # ks) m = init_loop reg ks (snd (load_backend_module reg m k))"
  using load_backend_module_raises [of reg m k]
  by (cases "load_backend_module reg m k") (auto split: option.splits)

lemma init_loop_Cons_fail:
  "TROUBLESHOOT_MODULES reg k = None \<Longrightarrow>
   init_loop reg (k # ks) m = (Some (KeyError k), snd (load_backend_module reg m k))"
  using load_backend_module_raises [of reg m k]
  by (cases "load_backend_module reg m k") (auto split: option.splits)

lemma init_loop_returns:
  "\<forall>i\<in>set ks. TROUBLESHOOT_MODULES reg i \<noteq> None \<Longrightarrow> fst (init_loop reg ks m) = None"
  by (induction ks arbitrary: m) (auto simp: init_loop_Cons_ok simp del: init_loop.simps(2))

lemma init_loop_returns_iff:
  "fst (init_loop reg ks m) = None \<longleftrightarrow> (\<forall>i\<in>set ks. TROUBLESHOOT_MODULES reg i \<noteq> None)"
proof (induction ks arbitrary: m)
  case Nil
  then show ?case by simp
next
  case (Cons k ks)
  show ?case
  proof (cases "TROUBLESHOOT_MODULES reg k")
    case None
    then show ?thesis by (simp add: init_loop_Cons_fail del: init_loop.simps(2))
  next
    case (Some t)
    with Cons.IH show ?thesis by (simp add: init_loop_Cons_ok del: init_loop.simps(2))
  qed
qed

lemma init_loop_append:
  "fst (init_loop reg pre m) = None \<Longrightarrow>
   init_loop reg (pre @ ks) m = init_loop reg ks (snd (init_loop reg pre m))"
proof (induction pre arbitrary: m)
  case Nil
  then show ?case by simp
next
  case (Cons k pre)
  show ?case
  proof (cases "TROUBLESHOOT_MODULES reg k")
    case None
    with Cons.prems show ?thesis by (simp add: init_loop_Cons_fail del: init_loop.simps(2))
  next
    case (Some t)
    with Cons show ?thesis by (simp add: init_loop_Cons_ok del: init_loop.simps(2))
  qed
qed

lemma init_loop_backends:
  "\<forall>i\<in>set ks. TROUBLESHOOT_MODULES reg i \<noteq> None \<Longrightarrow>
   backends (snd (init_loop reg ks m)) = backends m @ concat (map (\<lambda>i. running_of (load_outcome reg i)) ks)"
  by (induction ks arbitrary: m)
     (auto simp: init_loop_Cons_ok load_backend_module_state Let_def simp del: init_loop.simps(2))

lemma init_loop_bad_init:
  "\<forall>i\<in>set ks. TROUBLESHOOT_MODULES reg i \<noteq> None \<Longrightarrow>
   bad_init (snd (init_loop reg ks m)) = bad_init m @ concat (map (\<lambda>i. bad_init_of (load_outcome reg i)) ks)"
  by (induction ks arbitrary: m)
     (auto simp: init_loop_Cons_ok load_backend_module_state Let_def simp del: init_loop.simps(2))

lemma init_loop_not_installed:
  "\<forall>i\<in>set ks. TROUBLESHOOT_MODULES reg i \<noteq> None \<Longrightarrow>
   not_installed (snd (init_loop reg ks m)) = not_installed m @ filter (\<lambda>i. load_outcome reg i = NotInstalled) ks"
  by (induction ks arbitrary: m)
     (auto simp: init_loop_Cons_ok load_backend_module_state Let_def simp del: init_loop.simps(2))

lemma init_loop_import_errors:
  "\<forall>i\<in>set ks. TROUBLESHOOT_MODULES reg i \<noteq> None \<Longrightarrow>
   import_errors (snd (init_loop reg ks m)) i =
     (if i \<in> set ks \<and> import_error_of (load_outcome reg i) \<noteq> None
      then import_error_of (load_outcome reg i) else import_errors m i)"
  by (induction ks arbitrary: m)
     (auto simp: init_loop_Cons_ok load_backend_module_state Let_def simp del: init_loop.simps(2)
        split: option.splits)

lemma init_loop_troubleshooters_kept:
  "TROUBLESHOOT_MODULES reg i = Some t \<Longrightarrow> troubleshooters m i = Some t \<Longrightarrow>
   troubleshooters (snd (init_loop reg ks m)) i = Some t"
proof (induction ks arbitrary: m)
  case Nil
  then show ?case by simp
next
  case (Cons k ks)
  show ?case
  proof (cases "TROUBLESHOOT_MODULES reg k")
    case None
    with Cons.prems show ?thesis
      by (auto simp add: init_loop_Cons_fail load_backend_module_state Let_def simp del: init_loop.simps(2))
  next
    case (Some u)
    have "troubleshooters (snd (load_backend_module reg m k)) i = Some t"
      using Some Cons.prems by (auto simp: load_backend_module_state Let_def)
    with Cons Some show ?thesis by (simp add: init_loop_Cons_ok del: init_loop.simps(2))
  qed
qed

lemma init_loop_troubleshooters_other:
  "i \<notin> set ks \<Longrightarrow> troubleshooters (snd (init_loop reg ks m)) i = troubleshooters m i"
proof (induction ks arbitrary: m)
  case Nil
  then show ?case by simp
next
  case (Cons k ks)
  show ?case
  proof (cases "TROUBLESHOOT_MODULES reg k")
    case None
    with Cons.prems show ?thesis
      by (auto simp add: init_loop_Cons_fail load_backend_module_state Let_def simp del: init_loop.simps(2))
  next
    case (Some u)
    with Cons show ?thesis
      by (auto simp add: init_loop_Cons_ok load_backend_module_state Let_def simp del: init_loop.simps(2))
  qed
qed

lemma four_outcomes:
  "load_outcome four_registry ''alpha'' = NotInstalled"
  "load_outcome four_registry ''beta'' = InitError ''boom''"
  "load_outcome four_registry ''gamma'' = BadInit (dummy_backend ''gamma'' (Returns False))"
  "load_outcome four_registry ''delta'' = Running (dummy_backend ''delta'' (Returns True))"
  by (simp_all add: load_outcome_def four_registry_def exn_outcome_def is_import_error_def
      exception_text_def dummy_backend_def)

lemma four_init: "init four_registry Middleman =
  (None, \<lparr>backends = [dummy_backend ''delta'' (Returns True)],
    bad_init = [dummy_backend ''gamma'' (Returns False)],
    not_installed = [''alpha''],
    troubleshooters = [''alpha'' \<mapsto> ''troubleshoot_alpha'', ''beta'' \<mapsto> ''troubleshoot_beta'',
         ''gamma'' \<mapsto> ''troubleshoot_gamma'', ''delta'' \<mapsto> ''troubleshoot_delta''],
    import_errors = [''beta'' \<mapsto> ''boom''], device_cache = []\<rparr>)"
  by (simp add: init_def four_registry_def Middleman_def load_backend_module_def load_except_def
      is_import_error_def exception_text_def dummy_backend_def)

section \<open>Claims about \<^verbatim>\<open>init\<close>\<close>



text \<open>
  Claim C2. No exception of a constructor or of an \<^verbatim>\<open>init()\<close> method stops \<^verbatim>\<open>init\<close>: it
  returns exactly when every registered id has a troubleshooting routine. When it has
  returned, the four containers hold, in registration order, what the outcome of each id
  decides, and that outcome depends on the registry entry of the id alone: an exception
  while loading one backend changes nothing for another.
\<close>

theorem init_isolates_backends:
  "(fst (init reg m) = None \<longleftrightarrow>
      (\<forall>i\<in>set (map fst (BACKEND_NAMES reg)). TROUBLESHOOT_MODULES reg i \<noteq> None)) \<and>
   (fst (init reg m) = None \<longrightarrow>
      backends (snd (init reg m)) =
        backends m @ concat (map (\<lambda>i. running_of (load_outcome reg i)) (map fst (BACKEND_NAMES reg))) \<and>
      bad_init (snd (init reg m)) =
        bad_init m @ concat (map (\<lambda>i. bad_init_of (load_outcome reg i)) (map fst (BACKEND_NAMES reg))) \<and>
      not_installed (snd (init reg m)) =
        not_installed m @ filter (\<lambda>i. load_outcome reg i = NotInstalled) (map fst (BACKEND_NAMES reg)) \<and>
      (\<forall>i. import_errors (snd (init reg m)) i =
        (if i \<in> set (map fst (BACKEND_NAMES reg)) \<and> import_error_of (load_outcome reg i) \<noteq> None
         then import_error_of (load_outcome reg i) else import_errors m i)))"
proof (rule conjI)
  show "fst (init reg m) = None \<longleftrightarrow>
      (\<forall>i\<in>set (map fst (BACKEND_NAMES reg)). TROUBLESHOOT_MODULES reg i \<noteq> None)"
    unfolding init_def by (rule init_loop_returns_iff)
next
  have "backends (snd (init reg m)) =
        backends m @ concat (map (\<lambda>i. running_of (load_outcome reg i)) (map fst (BACKEND_NAMES reg))) \<and>
      bad_init (snd (init reg m)) =
        bad_init m @ concat (map (\<lambda>i. bad_init_of (load_outcome reg i)) (map fst (BACKEND_NAMES reg))) \<and>
      not_installed (snd (init reg m)) =
        not_installed m @ filter (\<lambda>i. load_outcome reg i = NotInstalled) (map fst (BACKEND_NAMES reg)) \<and>
      (\<forall>i. import_errors (snd (init reg m)) i =
        (if i \<in> set (map fst (BACKEND_NAMES reg)) \<and> import_error_of (load_outcome reg i) \<noteq> None
         then import_error_of (load_outcome reg i) else import_errors m i))"
    if r: "fst (init reg m) = None"
  proof -
    from r have t: "\<forall>i\<in>set (map fst (BACKEND_NAMES reg)). TROUBLESHOOT_MODULES reg i \<noteq> None"
      unfolding init_def by (simp only: init_loop_returns_iff)
    show ?thesis
      unfolding init_def
      using init_loop_backends [OF t] init_loop_bad_init [OF t] init_loop_not_installed [OF t]
        init_loop_import_errors [OF t]
      by blast
  qed
  then show "fst (init reg m) = None \<longrightarrow>
      backends (snd (init reg m)) =
        backends m @ concat (map (\<lambda>i. running_of (load_outcome reg i)) (map fst (BACKEND_NAMES reg))) \<and>
      bad_init (snd (init reg m)) =
        bad_init m @ concat (map (\<lambda>i. bad_init_of (load_outcome reg i)) (map fst (BACKEND_NAMES reg))) \<and>
      not_installed (snd (init reg m)) =
        not_installed m @ filter (\<lambda>i. load_outcome reg i = NotInstalled) (map fst (BACKEND_NAMES reg)) \<and>
      (\<forall>i. import_errors (snd (init reg m)) i =
        (if i \<in> set (map fst (BACKEND_NAMES reg)) \<and> import_error_of (load_outcome reg i) \<noteq> None
         then import_error_of (load_outcome reg i) else import_errors m i))"
    by (rule impI)
qed

theorem init_isolates_backends_witness:
  "list_all (\<lambda>i. TROUBLESHOOT_MODULES four_registry i \<noteq> None)
     (map fst (BACKEND_NAMES four_registry)) \<and>
   2 \<le> length (BACKEND_NAMES four_registry) \<and>
   fst (init four_registry Middleman) = None \<and>
   backends (snd (init four_registry Middleman)) = [dummy_backend ''delta'' (Returns True)] \<and>
   bad_init (snd (init four_registry Middleman)) = [dummy_backend ''gamma'' (Returns False)] \<and>
   not_installed (snd (init four_registry Middleman)) = [''alpha''] \<and>
   import_errors (snd (init four_registry Middleman)) ''beta'' = Some ''boom''"
proof -
  have h: "\<forall>i\<in>set (map fst (BACKEND_NAMES four_registry)). TROUBLESHOOT_MODULES four_registry i \<noteq> None"
    by (simp add: four_registry_def)
  have k: "map fst (BACKEND_NAMES four_registry) = [''alpha'', ''beta'', ''gamma'', ''delta'']"
    by (simp add: four_registry_def)
  have e: "backends Middleman = []" "bad_init Middleman = []" "not_installed Middleman = []"
    by (simp_all add: Middleman_def)
  note th = init_isolates_backends [of four_registry Middleman]
  from th h have f: "fst (init four_registry Middleman) = None"
    by blast
  from th f have b: "backends (snd (init four_registry Middleman)) =
      backends Middleman @ concat (map (\<lambda>i. running_of (load_outcome four_registry i))
        (map fst (BACKEND_NAMES four_registry)))"
    and g: "bad_init (snd (init four_registry Middleman)) =
      bad_init Middleman @ concat (map (\<lambda>i. bad_init_of (load_outcome four_registry i))
        (map fst (BACKEND_NAMES four_registry)))"
    and n: "not_installed (snd (init four_registry Middleman)) =
      not_installed Middleman @ filter (\<lambda>i. load_outcome four_registry i = NotInstalled)
        (map fst (BACKEND_NAMES four_registry))"
    and i: "import_errors (snd (init four_registry Middleman)) ''beta'' =
      (if ''beta'' \<in> set (map fst (BACKEND_NAMES four_registry)) \<and>
          import_error_of (load_outcome four_registry ''beta'') \<noteq> None
       then import_error_of (load_outcome four_registry ''beta'')
       else import_errors Middleman ''beta'')"
    by blast+
  have b': "backends (snd (init four_registry Middleman)) = [dummy_backend ''delta'' (Returns True)]"
    by (simp add: b k e four_outcomes running_of_def)
  have g': "bad_init (snd (init four_registry Middleman)) = [dummy_backend ''gamma'' (Returns False)]"
    by (simp add: g k e four_outcomes bad_init_of_def)
  have n': "not_installed (snd (init four_registry Middleman)) = [''alpha'']"
    by (simp add: n k e four_outcomes)
  have i': "import_errors (snd (init four_registry Middleman)) ''beta'' = Some ''boom''"
    by (simp add: i k four_outcomes import_error_of_def)
  have le: "2 \<le> length (BACKEND_NAMES four_registry)"
    by (simp add: four_registry_def)
  have la: "list_all (\<lambda>i. TROUBLESHOOT_MODULES four_registry i \<noteq> None)
      (map fst (BACKEND_NAMES four_registry))"
    using h by (simp only: list_all_iff)
  show ?thesis
    using la le f b' g' n' i' by (intro conjI) assumption+
qed

text \<open>
  Claim C8, as stated, fails: the backends of \<open>four_registry\<close> that are not installed, that
  raise and that fail to initialise get their troubleshooter all the same.
\<close>

theorem init_troubleshooter_counterexample:
  "load_outcome four_registry ''alpha'' = NotInstalled \<and>
   troubleshooters (snd (init four_registry Middleman)) ''alpha'' = Some ''troubleshoot_alpha'' \<and>
   load_outcome four_registry ''beta'' = InitError ''boom'' \<and>
   troubleshooters (snd (init four_registry Middleman)) ''beta'' = Some ''troubleshoot_beta'' \<and>
   load_outcome four_registry ''gamma'' = BadInit (dummy_backend ''gamma'' (Returns False)) \<and>
   troubleshooters (snd (init four_registry Middleman)) ''gamma'' = Some ''troubleshoot_gamma'' \<and>
   backends (snd (init four_registry Middleman)) = [dummy_backend ''delta'' (Returns True)]"
  by (simp add: four_outcomes four_init)

text \<open>
  Claim C8, amended. For every registered id that \<^verbatim>\<open>init\<close> reaches (each id before it has a
  troubleshooting routine) and that has a troubleshooting routine itself, \<^verbatim>\<open>init\<close> puts
  the routine into \<open>troubleshooters\<close> whatever the outcome of loading the backend; an id
  outside the registry gets no entry.
\<close>

theorem init_troubleshooter_whatever_outcome:
  assumes "map fst (BACKEND_NAMES reg) = pre @ bid # post"
    and "\<forall>i\<in>set pre. TROUBLESHOOT_MODULES reg i \<noteq> None"
    and "TROUBLESHOOT_MODULES reg bid = Some t"
  shows "troubleshooters (snd (init reg m)) bid = Some t \<and>
         (\<forall>j. j \<notin> set (map fst (BACKEND_NAMES reg)) \<longrightarrow>
            troubleshooters (snd (init reg m)) j = troubleshooters m j)"
proof -
  let ?m1 = "snd (init_loop reg pre m)"
  let ?m2 = "snd (load_backend_module reg ?m1 bid)"
  have "fst (init_loop reg pre m) = None"
    using assms(2) by (rule init_loop_returns)
  then have "init_loop reg (pre @ bid # post) m = init_loop reg (bid # post) ?m1"
    by (rule init_loop_append)
  also have "\<dots> = init_loop reg post ?m2"
    using assms(3) by (rule init_loop_Cons_ok)
  finally have eq: "init reg m = init_loop reg post ?m2"
    by (simp add: init_def assms(1))
  have "troubleshooters ?m2 bid = Some t"
    using assms(3) by (simp add: load_backend_module_state Let_def)
  with assms(3) have "troubleshooters (snd (init_loop reg post ?m2)) bid = Some t"
    by (rule init_loop_troubleshooters_kept)
  then show ?thesis
    by (simp add: eq [symmetric]) (simp add: init_def init_loop_troubleshooters_other)
qed

theorem init_troubleshooter_whatever_outcome_witness:
  "map fst (BACKEND_NAMES four_registry) = [''alpha''] @ ''beta'' # [''gamma'', ''delta''] \<and>
   list_all (\<lambda>i. TROUBLESHOOT_MODULES four_registry i \<noteq> None) [''alpha''] \<and>
   TROUBLESHOOT_MODULES four_registry ''beta'' = Some ''troubleshoot_beta'' \<and>
   load_outcome four_registry ''beta'' = InitError ''boom'' \<and>
   troubleshooters (snd (init four_registry Middleman)) ''beta'' = Some ''troubleshoot_beta'' \<and>
   troubleshooters (snd (init four_registry Middleman)) ''omega'' = None"
proof -
  have k: "map fst (BACKEND_NAMES four_registry) = [''alpha''] @ ''beta'' # [''gamma'', ''delta'']"
    by (simp add: four_registry_def)
  have p: "\<forall>i\<in>set [''alpha'']. TROUBLESHOOT_MODULES four_registry i \<noteq> None"
    by (simp add: four_registry_def)
  have t: "TROUBLESHOOT_MODULES four_registry ''beta'' = Some ''troubleshoot_beta''"
    by (simp add: four_registry_def)
  note th = init_troubleshooter_whatever_outcome [OF k p t, of Middleman]
  from th have o: "troubleshooters (snd (init four_registry Middleman)) ''omega'' =
      troubleshooters Middleman ''omega''"
    by (simp add: four_registry_def)
  then have o': "troubleshooters (snd (init four_registry Middleman)) ''omega'' = None"
    by (simp add: Middleman_def)
  from th have b: "troubleshooters (snd (init four_registry Middleman)) ''beta'' = Some ''troubleshoot_beta''"
    by simp
  have a: "list_all (\<lambda>i. TROUBLESHOOT_MODULES four_registry i \<noteq> None) [''alpha'']"
    by (simp add: four_registry_def)
  have c: "load_outcome four_registry ''beta'' = InitError ''boom''"
    by (simp add: four_outcomes)
  show ?thesis
    using k a t c b o' by (intro conjI) assumption+
qed

text \<open>
  Claim C9. When the first registered id without a troubleshooting routine is \<open>bid\<close>,
  \<^verbatim>\<open>init\<close> raises \<^verbatim>\<open>KeyError\<close> for it, and the state it leaves is the one that the load
  attempt of \<open>bid\<close> left: the ids registered after \<open>bid\<close> are not attempted.
\<close>

theorem init_missing_troubleshooter_raises:
  assumes "map fst (BACKEND_NAMES reg) = pre @ bid # post"
    and "\<forall>i\<in>set pre. TROUBLESHOOT_MODULES reg i \<noteq> None"
    and "TROUBLESHOOT_MODULES reg bid = None"
  shows "init reg m =
           (Some (KeyError bid), snd (load_backend_module reg (snd (init_loop reg pre m)) bid))"
proof -
  have "fst (init_loop reg pre m) = None"
    using assms(2) by (rule init_loop_returns)
  then have "init_loop reg (pre @ bid # post) m = init_loop reg (bid # post) (snd (init_loop reg pre m))"
    by (rule init_loop_append)
  also have "\<dots> = (Some (KeyError bid), snd (load_backend_module reg (snd (init_loop reg pre m)) bid))"
    using assms(3) by (rule init_loop_Cons_fail)
  finally show ?thesis by (simp add: init_def assms(1))
qed

lemma gap_init: "init gap_registry Middleman =
  (Some (KeyError ''beta''), \<lparr>backends = [],
    bad_init = [],
    not_installed = [''alpha''],
    troubleshooters = [''alpha'' \<mapsto> ''troubleshoot_alpha''],
    import_errors = [''beta'' \<mapsto> ''boom''], device_cache = []\<rparr>)"
  by (simp add: init_def gap_registry_def four_registry_def Middleman_def load_backend_module_def load_except_def
      is_import_error_def exception_text_def dummy_backend_def)

theorem init_missing_troubleshooter_raises_witness:
  "map fst (BACKEND_NAMES gap_registry) = [''alpha''] @ ''beta'' # [''gamma'', ''delta''] \<and>
   list_all (\<lambda>i. TROUBLESHOOT_MODULES gap_registry i \<noteq> None) [''alpha''] \<and>
   TROUBLESHOOT_MODULES gap_registry ''beta'' = None \<and>
   fst (init gap_registry Middleman) = Some (KeyError ''beta'') \<and>
   backends (snd (init gap_registry Middleman)) = [] \<and>
   bad_init (snd (init gap_registry Middleman)) = [] \<and>
   load_outcome gap_registry ''delta'' = Running (dummy_backend ''delta'' (Returns True))"
proof -
  have k: "map fst (BACKEND_NAMES gap_registry) = [''alpha''] @ ''beta'' # [''gamma'', ''delta'']"
    by (simp add: gap_registry_def four_registry_def)
  have p: "\<forall>i\<in>set [''alpha'']. TROUBLESHOOT_MODULES gap_registry i \<noteq> None"
    by (simp add: gap_registry_def)
  have t: "TROUBLESHOOT_MODULES gap_registry ''beta'' = None"
    by (simp add: gap_registry_def)
  have d: "load_outcome gap_registry ''delta'' = Running (dummy_backend ''delta'' (Returns True))"
    by (simp add: load_outcome_def gap_registry_def four_registry_def dummy_backend_def)
  from init_missing_troubleshooter_raises [OF k p t, of Middleman]
  have f: "fst (init gap_registry Middleman) = Some (KeyError ''beta'')"
    by simp
  have s: "snd (init gap_registry Middleman) =
      \<lparr>backends = [], bad_init = [], not_installed = [''alpha''],
       troubleshooters = [''alpha'' \<mapsto> ''troubleshoot_alpha''],
       import_errors = [''beta'' \<mapsto> ''boom''], device_cache = []\<rparr>"
    by (simp add: gap_init)
  have a: "list_all (\<lambda>i. TROUBLESHOOT_MODULES gap_registry i \<noteq> None) [''alpha'']"
    by (simp add: gap_registry_def)
  have b: "backends (snd (init gap_registry Middleman)) = []"
    "bad_init (snd (init gap_registry Middleman)) = []"
    by (simp_all add: s)
  show ?thesis
    using k a t f b d by (intro conjI) assumption+
qed

section \<open>Properties of the device cache and of the lookups\<close>

lemma reload_loop_returns:
  "\<forall>b\<in>set bs. returns (next_reply b) \<Longrightarrow>
   reload_loop bs cache = (None, map queried bs, cache @ concat (map contribution bs))"
proof (induction bs arbitrary: cache)
  case Nil
  then show ?case by simp
next
  case (Cons b bs)
  from Cons.prems obtain v where v: "next_reply b = Returns v"
    by (cases "next_reply b") (auto simp: returns_def)
  have call: "get_devices_call b = (Returns v, queried b)"
    using v by (simp add: get_devices_call_def next_reply_def queried_def)
  have c: "(case v of PList ds \<Rightarrow> cache @ ds | _ \<Rightarrow> cache) = cache @ contribution b"
    using v by (cases v) (simp_all add: contribution_def)
  have "reload_loop bs (cache @ contribution b) =
      (None, map queried bs, (cache @ contribution b) @ concat (map contribution bs))"
    using Cons.prems by (intro Cons.IH) simp
  then show ?case by (simp add: call c)
qed

lemma get_devices_Returns:
  "get_devices m = (Returns ds, m') \<Longrightarrow> device_cache m' = ds"
  by (auto simp: get_devices_def split: prod.splits option.splits)

lemma get_devices_cached:
  "device_cache m \<noteq> [] \<Longrightarrow> get_devices m = (Returns (device_cache m), m)"
  by (simp add: get_devices_def reload_device_cache_if_empty_def)

lemma get_device_by_name_loop_skip:
  "\<forall>p\<in>set pre. no_match (get_device_by_name_reply p name) \<Longrightarrow>
   get_device_by_name_loop (pre @ bs) name = get_device_by_name_loop bs name"
  by (induction pre) (auto simp: no_match_def split: call.splits pyval.splits)

lemma get_device_by_serial_loop_skip:
  "\<forall>p\<in>set pre. no_match (get_device_by_serial_reply p serial) \<Longrightarrow>
   get_device_by_serial_loop (pre @ bs) serial = get_device_by_serial_loop bs serial"
  by (induction pre) (auto simp: no_match_def split: call.splits pyval.splits)

lemma three_replies:
  "next_reply broken_backend = Returns (PStr ''Traceback'')"
  "next_reply silent_backend = Returns PNone"
  "next_reply razer_backend = Returns (PList [keyboard])"
  by (simp_all add: next_reply_def broken_backend_def silent_backend_def razer_backend_def
      dummy_backend_def)

lemma three_contributions:
  "contribution broken_backend = []"
  "contribution silent_backend = []"
  "contribution razer_backend = [keyboard]"
  by (simp_all add: contribution_def three_replies)

lemma three_state:
  "backends three_backends = [broken_backend, silent_backend, razer_backend]"
  "device_cache three_backends = []"
  by (simp_all add: three_backends_def Middleman_def)

lemma get_device_by_name_loop_raises:
  "get_device_by_name_loop bs name = Raises e \<Longrightarrow>
   \<exists>b\<in>set bs. get_device_by_name_reply b name = Raises e"
  by (induction bs) (auto split: call.splits pyval.splits)

lemma get_device_by_serial_loop_raises:
  "get_device_by_serial_loop bs serial = Raises e \<Longrightarrow>
   \<exists>b\<in>set bs. get_device_by_serial_reply b serial = Raises e"
  by (induction bs) (auto split: call.splits pyval.splits)

section \<open>Claims about the device cache and the lookups\<close>

text \<open>
  Claim C3. \<^verbatim>\<open>get_devices\<close> on a cache that is not empty returns the cache and leaves the
  state as it is: no backend is asked. On an empty cache it asks every running backend once,
  in order (here: when each of them returns), and returns what it collected. So when a call
  returned a list that is not empty, the next call returns the same list and changes
  nothing.
\<close>

theorem get_devices_lazy_and_stable:
  "(device_cache m \<noteq> [] \<longrightarrow> get_devices m = (Returns (device_cache m), m)) \<and>
   (device_cache m = [] \<and> (\<forall>b\<in>set (backends m). returns (next_reply b)) \<longrightarrow>
      get_devices m =
        (Returns (concat (map contribution (backends m))),
         m\<lparr>backends := map queried (backends m),
           device_cache := concat (map contribution (backends m))\<rparr>)) \<and>
   (get_devices m = (Returns ds, m') \<and> ds \<noteq> [] \<longrightarrow> get_devices m' = (Returns ds, m'))"
proof (intro conjI impI)
  assume "device_cache m \<noteq> []"
  then show "get_devices m = (Returns (device_cache m), m)" by (rule get_devices_cached)
next
  assume a: "device_cache m = [] \<and> (\<forall>b\<in>set (backends m). returns (next_reply b))"
  then have "reload_loop (backends m) [] =
      (None, map queried (backends m), [] @ concat (map contribution (backends m)))"
    by (intro reload_loop_returns) simp
  with a show "get_devices m =
        (Returns (concat (map contribution (backends m))),
         m\<lparr>backends := map queried (backends m),
           device_cache := concat (map contribution (backends m))\<rparr>)"
    by (simp add: get_devices_def reload_device_cache_if_empty_def)
next
  assume a: "get_devices m = (Returns ds, m') \<and> ds \<noteq> []"
  then have "device_cache m' = ds" by (auto dest: get_devices_Returns)
  with a show "get_devices m' = (Returns ds, m')"
    using get_devices_cached [of m'] by simp
qed

theorem get_devices_lazy_and_stable_witness:
  "fst (get_devices three_backends) = Returns [keyboard] \<and>
   next_reply (last (backends (snd (get_devices three_backends)))) =
     Returns (PList [keyboard, mouse]) \<and>
   get_devices (snd (get_devices three_backends)) =
     (Returns [keyboard], snd (get_devices three_backends))"
proof -
  have r: "\<forall>b\<in>set (backends three_backends). returns (next_reply b)"
    by (simp add: three_state three_replies returns_def)
  note th = get_devices_lazy_and_stable [of three_backends "[keyboard]" "snd (get_devices three_backends)"]
  from th r have g: "get_devices three_backends =
      (Returns (concat (map contribution (backends three_backends))),
       three_backends\<lparr>backends := map queried (backends three_backends),
         device_cache := concat (map contribution (backends three_backends))\<rparr>)"
    by (simp add: three_state)
  have f: "fst (get_devices three_backends) = Returns [keyboard]"
    by (simp add: g three_state three_contributions)
  have n: "next_reply (last (backends (snd (get_devices three_backends)))) =
      Returns (PList [keyboard, mouse])"
    by (simp add: g three_state queried_def get_devices_call_def next_reply_def
        razer_backend_def dummy_backend_def)
  have e: "get_devices three_backends = (Returns [keyboard], snd (get_devices three_backends))"
    using f by (simp add: prod_eq_iff)
  from th e have s: "get_devices (snd (get_devices three_backends)) =
      (Returns [keyboard], snd (get_devices three_backends))"
    by simp
  show ?thesis
    using f n s by (intro conjI) assumption+
qed

text \<open>
  The condition of the last part is needed: a call that left the cache empty is followed by
  a new round of queries, which may find what the first did not.
\<close>

lemma get_devices_empty_is_reloaded:
  "fst (get_devices late_only) = Returns [] \<and>
   fst (get_devices (snd (get_devices late_only))) = Returns [mouse]"
  by (simp add: get_devices_def reload_device_cache_if_empty_def late_only_def Middleman_def
      late_backend_def dummy_backend_def get_devices_call_def)

text \<open>
  Claim C10. When the cache is empty and every running backend returns from
  \<^verbatim>\<open>get_devices()\<close>, \<^verbatim>\<open>_reload_device_cache_if_empty\<close> raises nothing and leaves as cache
  the lists among the returned values, concatenated in the order of the backends; a value
  that is no list adds nothing.
\<close>

theorem reload_device_cache_if_empty_lists_only:
  assumes "device_cache m = []"
    and "\<forall>b\<in>set (backends m). returns (next_reply b)"
  shows "reload_device_cache_if_empty m =
           (None, m\<lparr>backends := map queried (backends m),
                     device_cache := concat (map contribution (backends m))\<rparr>)"
  using assms(1) reload_loop_returns [OF assms(2), of "[]"]
  by (simp add: reload_device_cache_if_empty_def)

theorem reload_device_cache_if_empty_lists_only_witness:
  "device_cache three_backends = [] \<and>
   list_all (\<lambda>b. returns (next_reply b)) (backends three_backends) \<and>
   fst (reload_device_cache_if_empty three_backends) = None \<and>
   device_cache (snd (reload_device_cache_if_empty three_backends)) = [keyboard]"
proof -
  have c: "device_cache three_backends = []"
    by (rule three_state)
  have r: "\<forall>b\<in>set (backends three_backends). returns (next_reply b)"
    by (simp add: three_state three_replies returns_def)
  have l: "list_all (\<lambda>b. returns (next_reply b)) (backends three_backends)"
    using r by (simp only: list_all_iff)
  note th = reload_device_cache_if_empty_lists_only [OF c r]
  have f: "fst (reload_device_cache_if_empty three_backends) = None"
    by (simp add: th)
  have d: "device_cache (snd (reload_device_cache_if_empty three_backends)) = [keyboard]"
    by (simp add: th three_state three_contributions)
  show ?thesis
    using c l f d by (intro conjI) assumption+
qed

text \<open>
  Claim C6, as stated, fails in its last part: the lookups have no exception handler, so an
  exception of a backend's own lookup escapes, here before the backend that has the device
  is asked.
\<close>

theorem get_device_by_name_raises_counterexample:
  "get_device_by_name crashing_first ''Dummy Keyboard'' = Raises (OtherException ''DBusException'') \<and>
   get_device_by_serial crashing_first ''DUMMY0001'' = Raises (OtherException ''DBusException'')"
  by (simp add: get_device_by_name_def get_device_by_serial_def crashing_first_def
      crashing_backend_def dummy_backend_def)

text \<open>
  Claim C6, amended. \<^verbatim>\<open>get_device_by_name\<close> asks the running backends in order and returns
  the first \<^verbatim>\<open>DeviceItem\<close> that one of them returns; when every backend returns a value
  that is no \<^verbatim>\<open>DeviceItem\<close>, the result is \<^verbatim>\<open>None\<close>. It raises only what the lookup of a
  backend raises, and it does when that backend is asked before any match. The same holds
  of \<^verbatim>\<open>get_device_by_serial\<close>.
\<close>

theorem get_device_by_first_reply:
  "(backends m = pre @ b # post \<and> (\<forall>p\<in>set pre. no_match (get_device_by_name_reply p name)) \<and>
      get_device_by_name_reply b name = Returns (PItem d) \<longrightarrow>
        get_device_by_name m name = Returns (Some d)) \<and>
   ((\<forall>p\<in>set (backends m). no_match (get_device_by_name_reply p name)) \<longrightarrow>
        get_device_by_name m name = Returns None) \<and>
   (backends m = pre @ b # post \<and> (\<forall>p\<in>set pre. no_match (get_device_by_name_reply p name)) \<and>
      get_device_by_name_reply b name = Raises e \<longrightarrow>
        get_device_by_name m name = Raises e) \<and>
   (get_device_by_name m name = Raises e \<longrightarrow>
      (\<exists>p\<in>set (backends m). get_device_by_name_reply p name = Raises e)) \<and>
   (backends m = pre @ b # post \<and> (\<forall>p\<in>set pre. no_match (get_device_by_serial_reply p serial)) \<and>
      get_device_by_serial_reply b serial = Returns (PItem d) \<longrightarrow>
        get_device_by_serial m serial = Returns (Some d)) \<and>
   ((\<forall>p\<in>set (backends m). no_match (get_device_by_serial_reply p serial)) \<longrightarrow>
        get_device_by_serial m serial = Returns None) \<and>
   (backends m = pre @ b # post \<and> (\<forall>p\<in>set pre. no_match (get_device_by_serial_reply p serial)) \<and>
      get_device_by_serial_reply b serial = Raises e \<longrightarrow>
        get_device_by_serial m serial = Raises e) \<and>
   (get_device_by_serial m serial = Raises e \<longrightarrow>
      (\<exists>p\<in>set (backends m). get_device_by_serial_reply p serial = Raises e))"
  using get_device_by_name_loop_skip [of pre name "b # post"]
    get_device_by_name_loop_skip [of "backends m" name "[]"]
    get_device_by_serial_loop_skip [of pre serial "b # post"]
    get_device_by_serial_loop_skip [of "backends m" serial "[]"]
    get_device_by_name_loop_raises [of "backends m" name e]
    get_device_by_serial_loop_raises [of "backends m" serial e]
  by (simp add: get_device_by_name_def get_device_by_serial_def)

theorem get_device_by_first_reply_witness:
  "backends three_backends = [broken_backend, silent_backend] @ razer_backend # [] \<and>
   list_all (\<lambda>p. no_match (get_device_by_name_reply p ''Dummy Keyboard''))
     [broken_backend, silent_backend] \<and>
   get_device_by_name three_backends ''Dummy Keyboard'' = Returns (Some keyboard) \<and>
   get_device_by_name three_backends ''Dummy Joystick'' = Returns None \<and>
   get_device_by_serial three_backends ''DUMMY0001'' = Returns (Some keyboard) \<and>
   get_device_by_serial three_backends ''DUMMY9999'' = Returns None"
proof -
  have b: "backends three_backends = [broken_backend, silent_backend] @ razer_backend # []"
    by (simp add: three_state)
  have p: "\<forall>p\<in>set [broken_backend, silent_backend].
      no_match (get_device_by_name_reply p ''Dummy Keyboard'')"
    "\<forall>p\<in>set [broken_backend, silent_backend].
      no_match (get_device_by_serial_reply p ''DUMMY0001'')"
    by (simp_all add: no_match_def broken_backend_def silent_backend_def dummy_backend_def)
  have l: "list_all (\<lambda>p. no_match (get_device_by_name_reply p ''Dummy Keyboard''))
     [broken_backend, silent_backend]"
    using p(1) by (simp only: list_all_iff)
  have r: "get_device_by_name_reply razer_backend ''Dummy Keyboard'' = Returns (PItem keyboard)"
    "get_device_by_serial_reply razer_backend ''DUMMY0001'' = Returns (PItem keyboard)"
    by (simp_all add: razer_backend_def dummy_backend_def)
  have q: "\<forall>p\<in>set (backends three_backends).
      no_match (get_device_by_name_reply p ''Dummy Joystick'')"
    "\<forall>p\<in>set (backends three_backends).
      no_match (get_device_by_serial_reply p ''DUMMY9999'')"
    by (simp_all add: three_state no_match_def broken_backend_def silent_backend_def
        razer_backend_def dummy_backend_def)
  have n1: "get_device_by_name three_backends ''Dummy Keyboard'' = Returns (Some keyboard)"
    using get_device_by_first_reply [where m = three_backends
        and pre = "[broken_backend, silent_backend]" and b = razer_backend and post = "[]"
        and name = "''Dummy Keyboard''" and d = keyboard and serial = "''DUMMY0001''"] b p r
    by blast
  have s1: "get_device_by_serial three_backends ''DUMMY0001'' = Returns (Some keyboard)"
    using get_device_by_first_reply [where m = three_backends
        and pre = "[broken_backend, silent_backend]" and b = razer_backend and post = "[]"
        and name = "''Dummy Keyboard''" and d = keyboard and serial = "''DUMMY0001''"] b p r
    by blast
  have n2: "get_device_by_name three_backends ''Dummy Joystick'' = Returns None"
    using get_device_by_first_reply [where m = three_backends
        and name = "''Dummy Joystick''" and serial = "''DUMMY9999''"] q
    by blast
  have s2: "get_device_by_serial three_backends ''DUMMY9999'' = Returns None"
    using get_device_by_first_reply [where m = three_backends
        and name = "''Dummy Joystick''" and serial = "''DUMMY9999''"] q
    by blast
  show ?thesis
    using b l n1 n2 s1 s2 by (intro conjI) assumption+
qed

section \<open>Properties of \<^verbatim>\<open>_get_current_device_option\<close>\<close>

lemma for_param_keeps:
  "found_option (for_param ps s) = found_option s \<and> option_id (for_param ps s) = option_id s"
  by (induction ps arbitrary: s) (auto simp: Let_def split: option.splits)

lemma for_option_inactive:
  "\<not> active_effect x \<Longrightarrow> for_option (x # xs) s = for_option xs s"
  by (cases "o_active x") (auto simp: active_effect_def)

lemma for_option_skip:
  "filter active_effect xs = [] \<Longrightarrow> for_option xs s = s"
proof (induction xs)
  case Nil
  then show ?case by simp
next
  case (Cons x xs)
  then have "\<not> active_effect x" and "filter active_effect xs = []"
    by (auto split: if_splits)
  with Cons.IH show ?case by (simp add: for_option_inactive del: for_option.simps)
qed

lemma last_option_Cons:
  "last_option (x # xs) = (case last_option xs of None \<Rightarrow> Some x | Some y \<Rightarrow> Some y)"
  by (simp add: last_option_def)


lemma last_option_append:
  "last_option (xs @ ys) = (case last_option ys of None \<Rightarrow> last_option xs | Some y \<Rightarrow> Some y)"
  by (simp add: last_option_def)

lemma for_option_found:
  "found_option (for_option xs s) =
     (case last_option (filter active_effect (visited xs)) of
        None \<Rightarrow> found_option s | Some x \<Rightarrow> Some x) \<and>
   option_id (for_option xs s) =
     (case last_option (filter active_effect (visited xs)) of
        None \<Rightarrow> option_id s | Some x \<Rightarrow> Some (o_id x))"
proof (induction xs arbitrary: s)
  case Nil
  then show ?case by (simp add: last_option_def)
next
  case (Cons x xs)
  show ?case
  proof (cases "active_effect x")
    case False
    then show ?thesis
      using Cons.IH [of s] by (simp add: for_option_inactive del: for_option.simps)
  next
    case True
    then have a: "o_active x = Some True" "o_type x = ''effect''"
      by (simp_all add: active_effect_def)
    let ?s1 = "s\<lparr>found_option := Some x, option_id := Some (o_id x)\<rparr>"
    show ?thesis
    proof (cases "o_parameters x")
      case None
      then show ?thesis
        using Cons.IH [of ?s1] True a
        by (simp add: last_option_Cons split: option.splits)
    next
      case (Some ps)
      show ?thesis
      proof (cases "ps = []")
        case True
        with Some \<open>active_effect x\<close> a show ?thesis
          by (simp add: last_option_def)
      next
        case False
        with Some \<open>active_effect x\<close> a show ?thesis
          using Cons.IH [of "for_param ps ?s1"] for_param_keeps [of ps ?s1]
          by (simp add: last_option_Cons split: option.splits)
      qed
    qed
  qed
qed

lemma for_zone_known:
  "list_all (\<lambda>z. map_of (zone_options device) z \<noteq> None) zs \<Longrightarrow>
   for_zone device zs s =
     Inr (foldl (\<lambda>s xs. for_option xs s) s
       (concat (map (\<lambda>z. case map_of (zone_options device) z of None \<Rightarrow> [] | Some xs \<Rightarrow> [xs]) zs)))"
  by (induction zs arbitrary: s) auto

lemma foldl_for_option_found:
  "found_option (foldl (\<lambda>s xs. for_option xs s) s ls) =
     (case last_option (filter active_effect (concat (map visited ls))) of
        None \<Rightarrow> found_option s | Some x \<Rightarrow> Some x) \<and>
   option_id (foldl (\<lambda>s xs. for_option xs s) s ls) =
     (case last_option (filter active_effect (concat (map visited ls))) of
        None \<Rightarrow> option_id s | Some x \<Rightarrow> Some (o_id x))"
proof (induction ls arbitrary: s)
  case Nil
  then show ?case by (simp add: last_option_def)
next
  case (Cons l ls)
  show ?case
    using Cons.IH [of "for_option l s"] for_option_found [of l s]
    by (simp add: last_option_append split: option.splits)
qed

lemma for_zone_scope:
  "zone_known device zone \<Longrightarrow>
   for_zone device (zones_of device zone) s =
     Inr (foldl (\<lambda>s xs. for_option xs s) s (scope device zone))"
  by (simp add: zone_known_def for_zone_known scope_def)

lemma for_option_single:
  "filter active_effect xs = [x] \<Longrightarrow> for_option xs s = for_option [x] s"
proof (induction xs)
  case Nil
  then show ?case by simp
next
  case (Cons y ys)
  show ?case
  proof (cases "active_effect y")
    case False
    with Cons show ?thesis by (simp add: for_option_inactive del: for_option.simps)
  next
    case True
    with Cons.prems have y: "y = x" and r: "filter active_effect ys = []"
      by simp_all
    from True have a: "o_active y = Some True" "o_type y = ''effect''"
      by (simp_all add: active_effect_def)
    show ?thesis
      using for_option_skip [OF r] a y
      by (simp add: Let_def split: option.splits)
  qed
qed

lemma foldl_for_option_skip:
  "filter active_effect (concat ls) = [] \<Longrightarrow> foldl (\<lambda>s xs. for_option xs s) s ls = s"
  by (induction ls arbitrary: s) (simp_all add: for_option_skip)

lemma foldl_for_option_single:
  "filter active_effect (concat ls) = [x] \<Longrightarrow>
   foldl (\<lambda>s xs. for_option xs s) s ls = for_option [x] s"
proof (induction ls arbitrary: s)
  case Nil
  then show ?case by simp
next
  case (Cons l ls)
  from Cons.prems have "filter active_effect l @ filter active_effect (concat ls) = [x]"
    by simp
  then consider
    (here) "filter active_effect l = [x]" "filter active_effect (concat ls) = []"
    | (later) "filter active_effect l = []" "filter active_effect (concat ls) = [x]"
    by (auto simp: append_eq_Cons_conv)
  then show ?case
  proof cases
    case here
    then show ?thesis
      by (simp add: foldl_for_option_skip for_option_single [of l x] del: for_option.simps)
  next
    case later
    then show ?thesis
      using Cons.IH [of s] by (simp add: for_option_skip del: for_option.simps)
  qed
qed

lemma for_param_complete:
  "list_all param_complete ps \<Longrightarrow>
   param_var (for_param ps s) = (if ps = [] then param_var s else Some (last ps)) \<and>
   option_data (for_param ps s) =
     (case last_option (filter param_on ps) of None \<Rightarrow> option_data s
      | Some p \<Rightarrow> (case p_data p of None \<Rightarrow> NoData | Some d \<Rightarrow> d)) \<and>
   colour_hex (for_param ps s) =
     (case last_option (filter param_on ps) of None \<Rightarrow> colour_hex s
      | Some p \<Rightarrow> (case p_colours p of None \<Rightarrow> [] | Some cs \<Rightarrow> cs))"
proof (induction ps arbitrary: s)
  case Nil
  then show ?case by (simp add: last_option_def)
next
  case (Cons p ps)
  then obtain a d cs where p: "p_active p = Some a" "p_data p = Some d" "p_colours p = Some cs"
    by (auto simp: param_complete_def)
  from Cons.prems have r: "list_all param_complete ps" by simp
  show ?case
  proof (cases a)
    case True
    then show ?thesis
      using Cons.IH [OF r, of "s\<lparr>param_var := Some p, option_data := d, colour_hex := cs\<rparr>"] p
      by (simp add: Let_def param_on_def last_option_Cons split: option.splits)
  next
    case False
    then show ?thesis
      using Cons.IH [OF r, of "s\<lparr>param_var := Some p\<rparr>"] p
      by (simp add: Let_def param_on_def split: option.splits)
  qed
qed


lemma for_option_one:
  "active_effect x \<Longrightarrow>
   for_option [x] s =
     (case o_parameters x of
        None \<Rightarrow> s\<lparr>found_option := Some x, option_id := Some (o_id x)\<rparr>
      | Some ps \<Rightarrow>
          if ps = [] then s\<lparr>found_option := Some x, option_id := Some (o_id x)\<rparr>
          else for_param ps (s\<lparr>found_option := Some x, option_id := Some (o_id x)\<rparr>))"
  by (simp add: active_effect_def Let_def split: option.splits)

lemma single_scan:
  assumes "zone_known device zone"
    and "filter active_effect (concat (scope device zone)) = [x]"
  shows "for_zone device (zones_of device zone) scan_start =
     Inr (case o_parameters x of
        None \<Rightarrow> scan_start\<lparr>found_option := Some x, option_id := Some (o_id x)\<rparr>
      | Some ps \<Rightarrow>
          if ps = [] then scan_start\<lparr>found_option := Some x, option_id := Some (o_id x)\<rparr>
          else for_param ps (scan_start\<lparr>found_option := Some x, option_id := Some (o_id x)\<rparr>))"
proof -
  have "x \<in> set (filter active_effect (concat (scope device zone)))"
    by (simp only: assms(2)) simp
  then have "active_effect x" by simp
  then show ?thesis
    by (simp only: for_zone_scope [OF assms(1)] foldl_for_option_single [OF assms(2)]
        for_option_one)
qed

text \<open>
  What the loops do in every case: the id is that of the last active effect option among the
  options read.
\<close>

lemma get_current_device_option_visited:
  "zone_known device zone \<Longrightarrow>
   (case get_current_device_option device zone of
      Returns (oid, odata, colours) \<Rightarrow>
        oid = map_option o_id
          (last_option (filter active_effect (concat (map visited (scope device zone)))))
    | Raises e \<Rightarrow> False)"
  using foldl_for_option_found [of scan_start "scope device zone"]
  by (simp add: get_current_device_option_def for_zone_scope scan_start_def
      split: option.splits)

lemma visited_whole:
  "\<not> cut_short xs \<Longrightarrow> filter active_effect (visited xs) = filter active_effect xs"
  by (induction xs) (auto split: if_splits)

lemma visited_all:
  "list_all (\<lambda>xs. \<not> cut_short xs) ls \<Longrightarrow>
   filter active_effect (concat (map visited ls)) = filter active_effect (concat ls)"
  by (induction ls) (simp_all add: visited_whole)

lemmas option_defs = brightness_option_def static_option_def spectrum_option_def wave_left_def
  wave_right_def wave_option_def breath_option_def idle_static_def

lemmas current_defs = get_current_device_option_def zones_of_def scan_start_def not_param_def

lemma current_examples:
  "get_current_device_option keyboard None =
     Returns (Some ''static'', Data ''right'', Some [''#00FFFF''])"
  "get_current_device_option keyboard (Some ''logo'') =
     Returns (Some ''static'', NoData, Some [''#FF0000''])"
  "get_current_device_option headset (Some ''main'') =
     Returns (Some ''static'', NoData, Some [''#FF0000''])"
  "get_current_device_option headset (Some ''logo'') = Raises (KeyError ''logo'')"
  "get_current_device_option mouse None =
     Returns (Some ''wave'', Data ''right'', Some [''#00FFFF''])"
  "get_current_device_option mouse (Some ''main'') = Returns (None, NoData, None)"
  by (simp_all add: current_defs keyboard_def headset_def mouse_def option_defs)

lemma active_examples:
  "\<not> active_effect brightness_option" "active_effect static_option"
  "active_effect spectrum_option" "active_effect wave_option"
  "\<not> active_effect breath_option" "\<not> active_effect idle_static"
  by (simp_all add: active_effect_def option_defs)

lemma scope_examples:
  "scope keyboard None =
     [[brightness_option, wave_option, spectrum_option], [static_option, breath_option]]"
  "scope keyboard (Some ''logo'') = [[static_option, breath_option]]"
  "scope headset (Some ''main'') = [[static_option, spectrum_option]]"
  "scope mouse None =
     [[brightness_option, breath_option, idle_static], [brightness_option, wave_option]]"
  "scope mouse (Some ''main'') = [[brightness_option, breath_option, idle_static]]"
  by (simp_all add: scope_def zones_of_def keyboard_def headset_def mouse_def)

lemma known_examples:
  "zone_known keyboard None" "zone_known keyboard (Some ''logo'')"
  "zone_known headset (Some ''main'')" "zone_known mouse None"
  "zone_known mouse (Some ''main'')"
  by (simp_all add: zone_known_def zones_of_def keyboard_def headset_def mouse_def)

section \<open>Claims about \<^verbatim>\<open>_get_current_device_option\<close>\<close>

text \<open>
  Claim C4, as stated, fails. In the zone \<open>main\<close> of \<open>headset\<close> the active effect options
  are \<open>static\<close> and, after it, \<open>spectrum\<close>; the id returned is that of the first, because
  the \<^verbatim>\<open>break\<close> at an active effect option with an empty parameter list ends the scan of
  the zone. And a zone that the device does not have makes the call raise \<^verbatim>\<open>KeyError\<close>.
\<close>

theorem get_current_device_option_last_counterexample:
  "filter active_effect (concat (scope headset (Some ''main''))) = [static_option, spectrum_option] \<and>
   o_id spectrum_option = ''spectrum'' \<and>
   get_current_device_option headset (Some ''main'') =
     Returns (Some ''static'', NoData, Some [''#FF0000'']) \<and>
   cut_short [static_option, spectrum_option] \<and>
   get_current_device_option headset (Some ''logo'') = Raises (KeyError ''logo'')"
  by (simp add: current_examples scope_examples active_examples)
     (simp add: spectrum_option_def static_option_def)

text \<open>
  Claim C4, amended. For every device and every scope whose zones the device has, and in
  which no zone is cut short (no active effect option with an empty parameter list is
  followed in its zone by another active effect option), the id returned is that of the
  last active effect option in the order of the iteration: zones in order, options of a
  zone in list order; it is \<^verbatim>\<open>None\<close> when there is none. A named zone that the device lacks
  raises \<^verbatim>\<open>KeyError\<close>.
\<close>

theorem get_current_device_option_last_match:
  "(zone_known device zone \<and> list_all (\<lambda>xs. \<not> cut_short xs) (scope device zone) \<longrightarrow>
      (case get_current_device_option device zone of
         Returns (oid, odata, colours) \<Rightarrow>
           oid = map_option o_id
             (last_option (filter active_effect (concat (scope device zone))))
       | Raises e \<Rightarrow> False)) \<and>
   (zone = Some z \<and> z \<noteq> [] \<and> map_of (zone_options device) z = None \<longrightarrow>
      get_current_device_option device zone = Raises (KeyError z))"
proof (intro conjI impI)
  assume a: "zone_known device zone \<and> list_all (\<lambda>xs. \<not> cut_short xs) (scope device zone)"
  then have k: "zone_known device zone"
    and eq: "filter active_effect (concat (map visited (scope device zone))) =
      filter active_effect (concat (scope device zone))"
    by (simp_all add: visited_all)
  show "case get_current_device_option device zone of
         Returns (oid, odata, colours) \<Rightarrow>
           oid = map_option o_id
             (last_option (filter active_effect (concat (scope device zone))))
       | Raises e \<Rightarrow> False"
    using get_current_device_option_visited [OF k] unfolding eq .
next
  assume "zone = Some z \<and> z \<noteq> [] \<and> map_of (zone_options device) z = None"
  then show "get_current_device_option device zone = Raises (KeyError z)"
    by (simp add: get_current_device_option_def zones_of_def)
qed

theorem get_current_device_option_last_match_witness:
  "zone_known keyboard None \<and>
   list_all (\<lambda>xs. \<not> cut_short xs) (scope keyboard None) \<and>
   filter active_effect (concat (scope keyboard None)) =
     [wave_option, spectrum_option, static_option] \<and>
   get_current_device_option keyboard None =
     Returns (Some ''static'', Data ''right'', Some [''#00FFFF'']) \<and>
   map_option o_id (last_option (filter active_effect (concat (scope keyboard None)))) =
     Some ''static'' \<and>
   map_of (zone_options headset) ''logo'' = None \<and>
   get_current_device_option headset (Some ''logo'') = Raises (KeyError ''logo'')"
proof -
  have k: "zone_known keyboard None"
    by (rule known_examples)
  have c: "list_all (\<lambda>xs. \<not> cut_short xs) (scope keyboard None)"
    by (simp add: scope_examples active_examples) (simp add: option_defs)
  have v: "filter active_effect (concat (scope keyboard None)) =
     [wave_option, spectrum_option, static_option]"
    by (simp add: scope_examples active_examples)
  have e: "get_current_device_option keyboard None =
     Returns (Some ''static'', Data ''right'', Some [''#00FFFF''])"
    by (rule current_examples)
  from get_current_device_option_last_match [of keyboard None] k c
  have "case get_current_device_option keyboard None of
         Returns (oid, odata, colours) \<Rightarrow>
           oid = map_option o_id
             (last_option (filter active_effect (concat (scope keyboard None))))
       | Raises e \<Rightarrow> False"
    by blast
  then have l: "map_option o_id
     (last_option (filter active_effect (concat (scope keyboard None)))) = Some ''static''"
    by (simp add: e)
  have n: "map_of (zone_options headset) ''logo'' = None"
    by (simp add: headset_def)
  from get_current_device_option_last_match [of headset "Some ''logo''" "''logo''"] n
  have r: "get_current_device_option headset (Some ''logo'') = Raises (KeyError ''logo'')"
    by simp
  show ?thesis
    using k c v e l n r by (intro conjI) assumption+
qed

text \<open>
  Claim C5, as stated, fails in its first part: without an active effect option the result
  is \<^verbatim>\<open>[None, None, None]\<close>, and \<^verbatim>\<open>None\<close> is not the empty list.
\<close>

theorem get_current_device_option_none_counterexample:
  "filter active_effect (concat (scope mouse (Some ''main''))) = [] \<and>
   get_current_device_option mouse (Some ''main'') = Returns (None, NoData, None) \<and>
   get_current_device_option mouse (Some ''main'') \<noteq> Returns (None, NoData, Some [])"
  by (simp add: current_examples scope_examples active_examples)

text \<open>
  Claim C5, amended. For a scope whose zones the device has: without an active effect
  option the result is \<^verbatim>\<open>[None, None, None]\<close>. With exactly one, \<open>x\<close>, the id is that of
  \<open>x\<close>; when \<open>x\<close> has no parameter list or an empty one, the data is \<^verbatim>\<open>None\<close> and the
  colours are those of \<open>x\<close>; when it has parameters (each with its three keys), data and
  colours are those of the last parameter that is switched on, and \<^verbatim>\<open>None\<close> and the empty
  list when none is.
\<close>

theorem get_current_device_option_none_or_single:
  assumes "zone_known device zone"
  shows "(filter active_effect (concat (scope device zone)) = [] \<longrightarrow>
            get_current_device_option device zone = Returns (None, NoData, None)) \<and>
         (filter active_effect (concat (scope device zone)) = [x] \<and>
          (o_parameters x = None \<or> o_parameters x = Some []) \<longrightarrow>
            get_current_device_option device zone =
              Returns (Some (o_id x), NoData, Some (o_colours x))) \<and>
         (filter active_effect (concat (scope device zone)) = [x] \<and>
          o_parameters x = Some ps \<and> ps \<noteq> [] \<and> list_all param_complete ps \<and>
          last_option (filter param_on ps) = Some p \<and> p_data p = Some d \<and> p_colours p = Some cs \<longrightarrow>
            get_current_device_option device zone = Returns (Some (o_id x), d, Some cs)) \<and>
         (filter active_effect (concat (scope device zone)) = [x] \<and>
          o_parameters x = Some ps \<and> ps \<noteq> [] \<and> list_all param_complete ps \<and>
          filter param_on ps = [] \<longrightarrow>
            get_current_device_option device zone = Returns (Some (o_id x), NoData, Some []))"
proof (intro conjI impI)
  assume "filter active_effect (concat (scope device zone)) = []"
  then show "get_current_device_option device zone = Returns (None, NoData, None)"
    by (simp add: get_current_device_option_def for_zone_scope [OF assms]
        foldl_for_option_skip scan_start_def)
next
  assume a: "filter active_effect (concat (scope device zone)) = [x] \<and>
          (o_parameters x = None \<or> o_parameters x = Some [])"
  then show "get_current_device_option device zone =
      Returns (Some (o_id x), NoData, Some (o_colours x))"
    using single_scan [OF assms, of x]
    by (auto simp: get_current_device_option_def scan_start_def not_param_def)
next
  assume a: "filter active_effect (concat (scope device zone)) = [x] \<and>
          o_parameters x = Some ps \<and> ps \<noteq> [] \<and> list_all param_complete ps \<and>
          last_option (filter param_on ps) = Some p \<and> p_data p = Some d \<and> p_colours p = Some cs"
  let ?s1 = "scan_start\<lparr>found_option := Some x, option_id := Some (o_id x)\<rparr>"
  from a have c: "list_all param_complete ps" and ne: "ps \<noteq> []" by simp_all
  from ne c have "param_complete (last ps)"
    by (simp add: list_all_iff)
  then have np: "\<not> not_param (Some (last ps))"
    by (simp add: not_param_def param_complete_def)
  from a have scan: "for_zone device (zones_of device zone) scan_start = Inr (for_param ps ?s1)"
    using single_scan [OF assms, of x] by simp
  have z: "found_option ?s1 = Some x" "option_id ?s1 = Some (o_id x)"
    by simp_all
  show "get_current_device_option device zone = Returns (Some (o_id x), d, Some cs)"
    using for_param_complete [OF c, of ?s1] for_param_keeps [of ps ?s1] a np
    by (simp add: get_current_device_option_def scan z)
next
  assume a: "filter active_effect (concat (scope device zone)) = [x] \<and>
          o_parameters x = Some ps \<and> ps \<noteq> [] \<and> list_all param_complete ps \<and>
          filter param_on ps = []"
  let ?s1 = "scan_start\<lparr>found_option := Some x, option_id := Some (o_id x)\<rparr>"
  from a have c: "list_all param_complete ps" and ne: "ps \<noteq> []" by simp_all
  from ne c have "param_complete (last ps)"
    by (simp add: list_all_iff)
  then have np: "\<not> not_param (Some (last ps))"
    by (simp add: not_param_def param_complete_def)
  from a have scan: "for_zone device (zones_of device zone) scan_start = Inr (for_param ps ?s1)"
    using single_scan [OF assms, of x] by simp
  have z: "option_data ?s1 = NoData" "colour_hex ?s1 = []" "found_option ?s1 = Some x"
    "option_id ?s1 = Some (o_id x)"
    by (simp_all add: scan_start_def)
  show "get_current_device_option device zone = Returns (Some (o_id x), NoData, Some [])"
    using for_param_complete [OF c, of ?s1] for_param_keeps [of ps ?s1] a np
    by (simp add: get_current_device_option_def scan last_option_def z)
qed

theorem get_current_device_option_none_or_single_witness:
  "zone_known mouse (Some ''main'') \<and>
   filter active_effect (concat (scope mouse (Some ''main''))) = [] \<and>
   get_current_device_option mouse (Some ''main'') = Returns (None, NoData, None) \<and>
   zone_known keyboard (Some ''logo'') \<and>
   filter active_effect (concat (scope keyboard (Some ''logo''))) = [static_option] \<and>
   o_parameters static_option = Some [] \<and>
   get_current_device_option keyboard (Some ''logo'') =
     Returns (Some (o_id static_option), NoData, Some (o_colours static_option)) \<and>
   zone_known mouse None \<and>
   filter active_effect (concat (scope mouse None)) = [wave_option] \<and>
   o_parameters wave_option = Some [wave_left, wave_right] \<and>
   list_all param_complete [wave_left, wave_right] \<and>
   last_option (filter param_on [wave_left, wave_right]) = Some wave_right \<and>
   get_current_device_option mouse None =
     Returns (Some (o_id wave_option), Data ''right'', Some [''#00FFFF''])"
proof -
  note k = known_examples
  have f: "filter active_effect (concat (scope mouse (Some ''main''))) = []"
    "filter active_effect (concat (scope keyboard (Some ''logo''))) = [static_option]"
    "filter active_effect (concat (scope mouse None)) = [wave_option]"
    by (simp_all add: scope_examples active_examples)
  have p: "o_parameters static_option = Some []"
    "o_parameters wave_option = Some [wave_left, wave_right]"
    by (simp_all add: option_defs)
  have c: "list_all param_complete [wave_left, wave_right]"
    by (simp add: param_complete_def option_defs)
  have l: "last_option (filter param_on [wave_left, wave_right]) = Some wave_right"
    by (simp add: param_on_def last_option_def option_defs)
  have w: "p_data wave_right = Some (Data ''right'')" "p_colours wave_right = Some [''#00FFFF'']"
    by (simp_all add: option_defs)
  have r1: "get_current_device_option mouse (Some ''main'') = Returns (None, NoData, None)"
    using get_current_device_option_none_or_single [OF k(5)] f(1) by blast
  have r2: "get_current_device_option keyboard (Some ''logo'') =
     Returns (Some (o_id static_option), NoData, Some (o_colours static_option))"
    using get_current_device_option_none_or_single [OF k(2), of static_option] f(2) p(1)
    by blast
  have r3: "get_current_device_option mouse None =
     Returns (Some (o_id wave_option), Data ''right'', Some [''#00FFFF''])"
    using get_current_device_option_none_or_single [OF k(4), of wave_option
        "[wave_left, wave_right]" wave_right "Data ''right''" "[''#00FFFF'']"] f(3) p(2) c l w
    by blast
  show ?thesis
    using k(5) f(1) r1 k(2) f(2) p(1) r2 k(4) f(3) p(2) c l r3
    by (intro conjI) assumption+
qed

section \<open>Properties of \<^verbatim>\<open>set_bulk_option\<close>\<close>

lemma pad_colours_replicate:
  "pad_colours n cs = cs @ replicate (nat (n - int (length cs))) ''#00FF00''"
proof (induction n cs rule: pad_colours.induct)
  case (1 n cs)
  show ?case
  proof (cases "int (length cs) < n")
    case True
    then have "nat (n - int (length cs)) = Suc (nat (n - int (length (cs @ [''#00FF00'']))))"
      by simp
    with True "1.IH" show ?thesis
      by (subst pad_colours.simps) (simp del: replicate.simps add: replicate_Suc [symmetric] replicate_app_Cons_same)
  next
    case False
    then show ?thesis
      by (subst pad_colours.simps) simp
  qed
qed

lemma matching_option_find:
  "matching_option oid xs = find (\<lambda>x. o_id x = oid) xs"
  by (induction xs) auto

lemma bulk_zones_bound:
  "set_device_state cls = Some apply_state \<Longrightarrow>
   fst (bulk_zones cls device oid odata n zs) = None \<and>
   fst (snd (bulk_zones cls device oid odata n zs)) =
     concat (map (zone_calls device oid odata n) zs)"
  by (induction zs)
     (auto simp: zone_calls_def apply_call_def matching_option_find pad_colours_replicate
        split: option.splits prod.splits)

lemma bulk_devices_bound:
  "set_device_state cls = Some apply_state \<Longrightarrow>
   fst (bulk_devices cls devices oid odata n) = None \<and>
   fst (snd (bulk_devices cls devices oid odata n)) =
     concat (map (\<lambda>device. concat (map (zone_calls device oid odata n) (zone_options device)))
       devices)"
proof (induction devices)
  case Nil
  then show ?case by simp
next
  case (Cons device devices)
  then show ?case
    using bulk_zones_bound [of cls apply_state device oid odata n "zone_options device"]
    by (auto split: prod.splits option.splits)
qed

text \<open>
  With both names bound the loops do what the specification says of them: in the order of
  the devices and of their zones, no call for a zone without the option id and one call
  for any other zone.
\<close>

lemma set_bulk_option_bound:
  "get_device_all cls = Some all_devices \<Longrightarrow> set_device_state cls = Some apply_state \<Longrightarrow>
   set_bulk_option cls self oid odata n =
     (None,
      concat (map (\<lambda>device. concat (map (zone_calls device oid odata n) (zone_options device)))
        (all_devices self)))"
  using bulk_devices_bound [of cls apply_state "all_devices self" oid odata n]
  by (auto simp: set_bulk_option_def split: prod.splits)

text \<open>On the class of the source the first lookup fails, whatever the arguments.\<close>

lemma set_bulk_option_unbound:
  "set_bulk_option Middleman_class self oid odata n = (Some (AttributeError ''get_device_all''), [])"
  by (simp add: set_bulk_option_def Middleman_class_def)

lemma zone_calls_examples:
  "zone_calls keyboard ''static'' NoData 2 (''main'', [brightness_option, wave_option, spectrum_option]) = []"
  "zone_calls keyboard ''static'' NoData 2 (''logo'', [static_option, breath_option]) =
     [apply_call keyboard ''logo'' ''static'' NoData [''#FF0000'', ''#00FF00'']]"
  "zone_calls mouse ''static'' NoData 2 (''main'', [brightness_option, breath_option, idle_static]) =
     [apply_call mouse ''main'' ''static'' NoData [''#00FF00'', ''#00FF00'']]"
  "zone_calls mouse ''static'' NoData 2 (''scroll'', [brightness_option, wave_option]) = []"
  by (simp_all add: zone_calls_def option_defs numeral_2_eq_2)

lemma two_cached_calls:
  "concat (map (\<lambda>device. concat (map (zone_calls device ''static'' NoData 2) (zone_options device)))
     (device_cache two_cached)) =
   [apply_call keyboard ''logo'' ''static'' NoData [''#FF0000'', ''#00FF00''],
    apply_call mouse ''main'' ''static'' NoData [''#00FF00'', ''#00FF00'']]"
  by (simp add: two_cached_def keyboard_def mouse_def
      zone_calls_examples [unfolded keyboard_def mouse_def])

section \<open>Claims about \<^verbatim>\<open>set_bulk_option\<close>\<close>

text \<open>
  Claim C7. The code does not do what the claim says. With \<open>keyboard\<close> and \<open>mouse\<close> in the
  cache, the zone \<open>logo\<close> of the first and the zone \<open>main\<close> of the second offer the option
  \<open>static\<close>, so the claim has \<^verbatim>\<open>set_bulk_option("static", None, 2)\<close> make two calls of the
  apply-state operation, with the colours padded to two. The method of the source makes
  none: its lookup of \<^verbatim>\<open>get_device_all\<close> raises \<^verbatim>\<open>AttributeError\<close>. Were the two names
  bound, the same loops would make exactly the two calls.
\<close>

theorem set_bulk_option_attribute_error:
  "set_bulk_option Middleman_class two_cached ''static'' NoData 2 =
     (Some (AttributeError ''get_device_all''), []) \<and>
   concat (map (\<lambda>device. concat (map (zone_calls device ''static'' NoData 2) (zone_options device)))
     (device_cache two_cached)) =
     [apply_call keyboard ''logo'' ''static'' NoData [''#FF0000'', ''#00FF00''],
      apply_call mouse ''main'' ''static'' NoData [''#00FF00'', ''#00FF00'']] \<and>
   set_bulk_option bound_class two_cached ''static'' NoData 2 =
     (None,
      [apply_call keyboard ''logo'' ''static'' NoData [''#FF0000'', ''#00FF00''],
       apply_call mouse ''main'' ''static'' NoData [''#00FF00'', ''#00FF00'']])"
proof -
  have b: "get_device_all bound_class = Some device_cache"
    "set_device_state bound_class = Some (\<lambda>c. True)"
    by (simp_all add: bound_class_def)
  show ?thesis
    by (simp add: set_bulk_option_unbound set_bulk_option_bound [OF b] two_cached_calls)
qed

end
